theory Spec2Isabelle
  imports Complex_Main
begin

section \<open>Python values shared by both modules\<close>

text \<open>
  An exception value is its class chain (the class itself first, then its bases, as
  \<^verbatim>\<open>type(e).__mro__\<close> lists them) and the text \<^verbatim>\<open>str(e)\<close> gives.
  \<^verbatim>\<open>isinstance(e, C)\<close> and an \<^verbatim>\<open>except C\<close> clause look the class up in that chain.
\<close>

datatype py_exn = Exn (exn_mro: "string list") (exn_str: string)

definition isinstance :: "py_exn \<Rightarrow> string \<Rightarrow> bool" where
  "isinstance e c = (c \<in> set (exn_mro e))"

definition ValueError :: "string \<Rightarrow> py_exn" where
  "ValueError msg = Exn [''ValueError'', ''Exception'', ''BaseException''] msg"

definition TypeError :: "string \<Rightarrow> py_exn" where
  "TypeError msg = Exn [''TypeError'', ''Exception'', ''BaseException''] msg"

definition FileNotFoundError :: "string \<Rightarrow> py_exn" where
  "FileNotFoundError msg =
     Exn [''FileNotFoundError'', ''OSError'', ''Exception'', ''BaseException''] msg"

definition ZeroDivisionError :: "string \<Rightarrow> py_exn" where
  "ZeroDivisionError msg =
     Exn [''ZeroDivisionError'', ''ArithmeticError'', ''Exception'', ''BaseException''] msg"

definition ModuleNotFoundError :: "string \<Rightarrow> py_exn" where
  "ModuleNotFoundError msg =
     Exn [''ModuleNotFoundError'', ''ImportError'', ''Exception'', ''BaseException''] msg"


text \<open>
  \<^verbatim>\<open>repr\<close> of a string and of a list of strings, as the f-strings of the error
  messages print the keys of the configuration tables. The quoting is Python's for
  strings of printable ASCII without quotes or backslashes, which is what the tables hold.
\<close>

definition py_repr_str :: "string \<Rightarrow> string" where
  "py_repr_str s = [CHR 0x27] @ s @ [CHR 0x27]"

fun join :: "string \<Rightarrow> string list \<Rightarrow> string" where
  "join sep [] = []"
| "join sep [x] = x"
| "join sep (x # y # ys) = x @ sep @ join sep (y # ys)"

definition py_repr_list :: "string list \<Rightarrow> string" where
  "py_repr_list xs = ''['' @ join '', '' (map py_repr_str xs) @ '']''"

definition KeyError :: "string \<Rightarrow> py_exn" where
  "KeyError key =
     Exn [''KeyError'', ''LookupError'', ''Exception'', ''BaseException''] (py_repr_str key)"

text \<open>
  \<^verbatim>\<open>str.lower\<close> and \<^verbatim>\<open>str.upper\<close> on ASCII text: the letters A to Z and a to z
  are moved by 32, every other character is kept.
\<close>

definition lower_char :: "char \<Rightarrow> char" where
  "lower_char c =
     (let n = (of_char c :: nat) in if 65 \<le> n \<and> n \<le> 90 then char_of (n + 32) else c)"

definition lower :: "string \<Rightarrow> string" where
  "lower s = map lower_char s"

definition upper_char :: "char \<Rightarrow> char" where
  "upper_char c =
     (let n = (of_char c :: nat) in if 97 \<le> n \<and> n \<le> 122 then char_of (n - 32) else c)"

definition upper :: "string \<Rightarrow> string" where
  "upper s = map upper_char s"

text \<open>
  What a call does besides returning: the records handed to the module's logger (the
  f-string's text and the values it interpolates, unformatted) and the calls into the
  libraries the module drives, in program order.
\<close>

datatype level = INFO | WARNING | ERROR

datatype fmt_arg = S string | I int | R real

type_synonym handle = nat

type_synonym bytes = "nat list"

datatype ndarray = Arr1 "real list" | Arr2 "real list list"

datatype effect =
    Log level string "fmt_arg list"
  | From_pretrained string
  | Model_eval handle
  | Dynamo_suppress_errors
  | Tokenizer_from_pretrained string
  | Cuda_empty_cache
  | Sf_write_path string ndarray int
  | Sf_write_buffer ndarray int
  | Named_temporary_file
  | From_wav string
  | Export_path handle string string
  | Export_buffer handle string
  | Sf_read_buffer bytes
  | Sf_read_path string
  | Librosa_resample "real list" int int

section \<open>model\_manager.py\<close>

text \<open>
  The configuration tables. Association lists keep the insertion order of the Python
  dictionaries, which the error messages print.
\<close>

definition MODEL_SIZES :: "(string \<times> (string \<times> string) list) list" where
  "MODEL_SIZES =
     [(''0.6B'',
        [(''custom_voice'', ''Qwen/Qwen3-TTS-12Hz-0.6B-CustomVoice''),
         (''voice_design'', ''Qwen/Qwen3-TTS-12Hz-0.6B-VoiceDesign''),
         (''voice_clone'', ''Qwen/Qwen3-TTS-12Hz-0.6B-Base'')]),
      (''1.7B'',
        [(''custom_voice'', ''Qwen/Qwen3-TTS-12Hz-1.7B-CustomVoice''),
         (''voice_design'', ''Qwen/Qwen3-TTS-12Hz-1.7B-VoiceDesign''),
         (''voice_clone'', ''Qwen/Qwen3-TTS-12Hz-1.7B-Base'')])]"

definition TOKENIZER_MODEL :: string where
  "TOKENIZER_MODEL = ''Qwen/Qwen3-TTS-Tokenizer-12Hz''"

text \<open>
  The manager object: the cache \<^verbatim>\<open>self.models\<close> (one dictionary for the models and,
  under the key \<^verbatim>\<open>"tokenizer"\<close>, the tokenizer), the active size and the device and
  dtype fixed when the manager is built. A handle is the identity of a loaded object.
\<close>

record manager =
  models :: "string \<rightharpoonup> handle"
  model_size :: string
  device :: string
  dtype :: string

text \<open>
  What the libraries answer during one call: \<^verbatim>\<open>Qwen3TTSModel.from_pretrained\<close> (on
  the model identifier, the device and the dtype), \<^verbatim>\<open>model.eval()\<close>,
  \<^verbatim>\<open>torch.cuda.is_available()\<close>, the import of \<^verbatim>\<open>torch._dynamo\<close> and
  \<^verbatim>\<open>Qwen3TTSTokenizer.from_pretrained\<close>. A call that raises answers with its exception.
  Every call of the manager takes its own answers, so two calls may be answered differently.
\<close>

record torch_env =
  from_pretrained :: "string \<Rightarrow> string \<Rightarrow> string \<Rightarrow> py_exn + handle"
  model_eval :: "handle \<Rightarrow> py_exn option"
  cuda_is_available :: bool
  import_torch_dynamo :: "py_exn option"
  tokenizer_from_pretrained :: "string \<Rightarrow> string \<Rightarrow> py_exn + handle"

text \<open>\<^verbatim>\<open>Qwen3TTSModelManager.__init__\<close>: an empty cache; the size is not validated.\<close>

definition init_manager :: "string \<Rightarrow> string \<Rightarrow> string \<Rightarrow> manager" where
  "init_manager msize dev dt =
     \<lparr>models = Map.empty, model_size = msize, device = dev, dtype = dt\<rparr>"

text \<open>
  Lines 124 to 135 of \<^verbatim>\<open>load_model\<close>: on the CPU the import of \<^verbatim>\<open>torch._dynamo\<close> is
  tried; an \<^verbatim>\<open>Exception\<close> it raises is logged and dropped, anything else propagates.
\<close>

definition cpu_optimize :: "torch_env \<Rightarrow> py_exn option \<times> effect list" where
  "cpu_optimize env =
     (if \<not> cuda_is_available env then
        (case import_torch_dynamo env of
           None \<Rightarrow>
             (None, [Dynamo_suppress_errors,
                     Log INFO ''Attempting torch.compile optimization for CPU...'' []])
         | Some e \<Rightarrow>
             if isinstance e ''Exception''
             then (None, [Log INFO ''Torch compile not available: {e}'' [S (exn_str e)]])
             else (Some e, []))
      else (None, []))"

text \<open>The body of the \<^verbatim>\<open>try\<close> of \<^verbatim>\<open>load_model\<close> (lines 113 to 139).\<close>

definition load_model_try ::
  "torch_env \<Rightarrow> manager \<Rightarrow> string \<Rightarrow> string \<Rightarrow> (py_exn + handle) \<times> manager \<times> effect list" where
  "load_model_try env s model_type model_id =
     (case from_pretrained env model_id (device s) (dtype s) of
        Inl e \<Rightarrow> (Inl e, s, [From_pretrained model_id])
      | Inr model \<Rightarrow>
          (case model_eval env model of
             Some e \<Rightarrow> (Inl e, s, [From_pretrained model_id, Model_eval model])
           | None \<Rightarrow>
               (case cpu_optimize env of
                  (Some e, t) \<Rightarrow> (Inl e, s, [From_pretrained model_id, Model_eval model] @ t)
                | (None, t) \<Rightarrow>
                    (Inr model,
                     s\<lparr>models := (models s)(model_type \<mapsto> model)\<rparr>,
                     [From_pretrained model_id, Model_eval model] @ t @
                     [Log INFO ''Successfully loaded {model_type} model ({self.model_size})''
                        [S model_type, S (model_size s)]]))))"

text \<open>
  \<^verbatim>\<open>load_model\<close> from line 103 on, where a call is once the cache check of line 99 has
  not returned: the lookup of the active size (a \<^verbatim>\<open>KeyError\<close> when the size is no key
  of \<^verbatim>\<open>MODEL_SIZES\<close>), the check of the model type, the \<^verbatim>\<open>try\<close>, and its handler,
  which logs an \<^verbatim>\<open>Exception\<close> and raises it again.
\<close>

definition load_model_miss ::
  "torch_env \<Rightarrow> manager \<Rightarrow> string \<Rightarrow> (py_exn + handle) \<times> manager \<times> effect list" where
  "load_model_miss env s model_type =
     (case map_of MODEL_SIZES (model_size s) of
        None \<Rightarrow> (Inl (KeyError (model_size s)), s, [])
      | Some profile \<Rightarrow>
          (case map_of profile model_type of
             None \<Rightarrow>
               (Inl (ValueError (''Unknown model type: '' @ model_type @ ''. Available: '' @
                       py_repr_list (map fst profile))), s, [])
           | Some model_id \<Rightarrow>
               (case load_model_try env s model_type model_id of
                  (Inl e, s', t) \<Rightarrow>
                    (Inl e, s',
                     Log INFO ''Loading {model_type} model ({self.model_size}) from {model_id}''
                       [S model_type, S (model_size s), S model_id] # t @
                     (if isinstance e ''Exception''
                      then [Log ERROR ''Failed to load {model_type} model: {str(e)}''
                              [S model_type, S (exn_str e)]]
                      else []))
                | (Inr model, s', t) \<Rightarrow>
                    (Inr model, s',
                     Log INFO ''Loading {model_type} model ({self.model_size}) from {model_id}''
                       [S model_type, S (model_size s), S model_id] # t))))"

text \<open>\<^verbatim>\<open>load_model\<close>: the cache check of lines 99 to 101, then the rest.\<close>

definition load_model ::
  "torch_env \<Rightarrow> manager \<Rightarrow> string \<Rightarrow> bool \<Rightarrow> (py_exn + handle) \<times> manager \<times> effect list" where
  "load_model env s model_type force_reload =
     (case models s model_type of
        Some cached \<Rightarrow>
          if \<not> force_reload
          then (Inr cached, s, [Log INFO ''Using cached {model_type} model'' [S model_type]])
          else load_model_miss env s model_type
      | None \<Rightarrow> load_model_miss env s model_type)"

text \<open>\<^verbatim>\<open>load_tokenizer\<close>.\<close>

definition load_tokenizer ::
  "torch_env \<Rightarrow> manager \<Rightarrow> bool \<Rightarrow> (py_exn + handle) \<times> manager \<times> effect list" where
  "load_tokenizer env s force_reload =
     (case models s ''tokenizer'' of
        Some cached \<Rightarrow>
          if \<not> force_reload
          then (Inr cached, s, [Log INFO ''Using cached tokenizer'' []])
          else
            (case tokenizer_from_pretrained env TOKENIZER_MODEL (device s) of
               Inl e \<Rightarrow>
                 (Inl e, s,
                  [Log INFO ''Loading tokenizer from {TOKENIZER_MODEL}'' [S TOKENIZER_MODEL],
                   Tokenizer_from_pretrained TOKENIZER_MODEL] @
                  (if isinstance e ''Exception''
                   then [Log ERROR ''Failed to load tokenizer: {str(e)}'' [S (exn_str e)]]
                   else []))
             | Inr tokenizer \<Rightarrow>
                 (Inr tokenizer, s\<lparr>models := (models s)(''tokenizer'' \<mapsto> tokenizer)\<rparr>,
                  [Log INFO ''Loading tokenizer from {TOKENIZER_MODEL}'' [S TOKENIZER_MODEL],
                   Tokenizer_from_pretrained TOKENIZER_MODEL,
                   Log INFO ''Successfully loaded tokenizer'' []]))
      | None \<Rightarrow>
          (case tokenizer_from_pretrained env TOKENIZER_MODEL (device s) of
             Inl e \<Rightarrow>
               (Inl e, s,
                [Log INFO ''Loading tokenizer from {TOKENIZER_MODEL}'' [S TOKENIZER_MODEL],
                 Tokenizer_from_pretrained TOKENIZER_MODEL] @
                (if isinstance e ''Exception''
                 then [Log ERROR ''Failed to load tokenizer: {str(e)}'' [S (exn_str e)]]
                 else []))
           | Inr tokenizer \<Rightarrow>
               (Inr tokenizer, s\<lparr>models := (models s)(''tokenizer'' \<mapsto> tokenizer)\<rparr>,
                [Log INFO ''Loading tokenizer from {TOKENIZER_MODEL}'' [S TOKENIZER_MODEL],
                 Tokenizer_from_pretrained TOKENIZER_MODEL,
                 Log INFO ''Successfully loaded tokenizer'' []])))"

text \<open>\<^verbatim>\<open>clear_cache\<close>: the whole dictionary is emptied, the tokenizer's key with it.\<close>

definition clear_cache :: "torch_env \<Rightarrow> manager \<Rightarrow> manager \<times> effect list" where
  "clear_cache env s =
     (s\<lparr>models := Map.empty\<rparr>,
      (if cuda_is_available env then [Cuda_empty_cache] else []) @
      [Log INFO ''Cleared model cache'' []])"

text \<open>\<^verbatim>\<open>unload_model\<close>.\<close>

definition unload_model :: "manager \<Rightarrow> string \<Rightarrow> manager \<times> effect list" where
  "unload_model s model_type =
     (if model_type \<in> dom (models s)
      then (s\<lparr>models := (models s)(model_type := None)\<rparr>,
            [Log INFO ''Unloaded {model_type} model'' [S model_type]])
      else (s, []))"

text \<open>
  \<^verbatim>\<open>set_model_size\<close> (its parameter \<^verbatim>\<open>size\<close> is \<open>msize\<close> here, \<open>size\<close> being a
  constant of HOL): the size is validated, and when it differs from the active one
  \<^verbatim>\<open>clear_cache\<close> runs on the manager that still has the old size; the size is assigned
  to what \<^verbatim>\<open>clear_cache\<close> leaves.
\<close>

definition set_model_size ::
  "torch_env \<Rightarrow> manager \<Rightarrow> string \<Rightarrow> (py_exn + unit) \<times> manager \<times> effect list" where
  "set_model_size env s msize =
     (if map_of MODEL_SIZES msize = None
      then (Inl (ValueError (''Invalid model size: '' @ msize @ ''. Available: '' @
                    py_repr_list (map fst MODEL_SIZES))), s, [])
      else if msize \<noteq> model_size s
      then (case clear_cache env s of
              (s', t) \<Rightarrow>
                (Inr (), s'\<lparr>model_size := msize\<rparr>,
                 Log INFO ''Changing model size from {self.model_size} to {size}''
                   [S (model_size s), S msize] # t))
      else (Inr (), s, []))"

text \<open>How often a trace calls \<^verbatim>\<open>Qwen3TTSModel.from_pretrained\<close>, the expensive load.\<close>

fun is_load :: "effect \<Rightarrow> bool" where
  "is_load (From_pretrained _) = True"
| "is_load _ = False"

definition count_loads :: "effect list \<Rightarrow> nat" where
  "count_loads t = length (filter is_load t)"

text \<open>
  A call of \<^verbatim>\<open>load_model\<close> in two steps, for calls that overlap: the cache check of
  line 99 reads the dictionary and either returns or goes on; the rest (lines 103 to
  142) never reads the cache again and stores into it at line 137. Between the two steps
  another thread may run.
\<close>

datatype call_pc = Before_check | After_miss | Returned "py_exn + handle"

definition load_model_step ::
  "torch_env \<Rightarrow> manager \<Rightarrow> string \<Rightarrow> bool \<Rightarrow> call_pc \<Rightarrow> call_pc \<times> manager \<times> effect list" where
  "load_model_step env s model_type force_reload pc =
     (case pc of
        Before_check \<Rightarrow>
          (case models s model_type of
             Some cached \<Rightarrow>
               if \<not> force_reload
               then (Returned (Inr cached), s,
                     [Log INFO ''Using cached {model_type} model'' [S model_type]])
               else (After_miss, s, [])
           | None \<Rightarrow> (After_miss, s, []))
      | After_miss \<Rightarrow>
          (case load_model_miss env s model_type of (r, s', t) \<Rightarrow> (Returned r, s', t))
      | Returned r \<Rightarrow> (Returned r, s, []))"

text \<open>
  Two callers of \<^verbatim>\<open>load_model(model_type)\<close> on one manager, as the start-up task (in
  a worker thread) and a request handler are. A schedule names the caller that takes each
  next step; the libraries answer caller A with \<open>env_a\<close> and caller B with \<open>env_b\<close>.
\<close>

datatype caller = Caller_A | Caller_B

record two_calls =
  mgr :: manager
  pc_a :: call_pc
  pc_b :: call_pc
  trace :: "effect list"

definition sched_step ::
  "torch_env \<Rightarrow> torch_env \<Rightarrow> string \<Rightarrow> two_calls \<Rightarrow> caller \<Rightarrow> two_calls" where
  "sched_step env_a env_b model_type c who =
     (case who of
        Caller_A \<Rightarrow>
          (case load_model_step env_a (mgr c) model_type False (pc_a c) of
             (pc', s', t) \<Rightarrow> c\<lparr>mgr := s', pc_a := pc', trace := trace c @ t\<rparr>)
      | Caller_B \<Rightarrow>
          (case load_model_step env_b (mgr c) model_type False (pc_b c) of
             (pc', s', t) \<Rightarrow> c\<lparr>mgr := s', pc_b := pc', trace := trace c @ t\<rparr>))"

fun run_schedule ::
  "torch_env \<Rightarrow> torch_env \<Rightarrow> string \<Rightarrow> two_calls \<Rightarrow> caller list \<Rightarrow> two_calls" where
  "run_schedule env_a env_b model_type c [] = c"
| "run_schedule env_a env_b model_type c (who # sch) =
     run_schedule env_a env_b model_type (sched_step env_a env_b model_type c who) sch"

definition start_calls :: "manager \<Rightarrow> two_calls" where
  "start_calls s = \<lparr>mgr = s, pc_a = Before_check, pc_b = Before_check, trace = []\<rparr>"

text \<open>
  What holds of two overlapping calls once both have passed the cache check of the
  configuration \<open>c0\<close>: the size, device and dtype are those of \<open>c0\<close>; each caller either
  still has the rest of \<^verbatim>\<open>load_model\<close> before it or has returned what that rest gives
  under its own answers; and the trace has one more \<^verbatim>\<open>from_pretrained\<close> for each caller
  that has returned.
\<close>

definition past_check ::
  "torch_env \<Rightarrow> torch_env \<Rightarrow> string \<Rightarrow> two_calls \<Rightarrow> two_calls \<Rightarrow> bool" where
  "past_check env_a env_b model_type c0 c =
     (model_size (mgr c) = model_size (mgr c0) \<and>
      device (mgr c) = device (mgr c0) \<and>
      dtype (mgr c) = dtype (mgr c0) \<and>
      (pc_a c = After_miss \<or>
       pc_a c = Returned (fst (load_model_miss env_a (mgr c0) model_type))) \<and>
      (pc_b c = After_miss \<or>
       pc_b c = Returned (fst (load_model_miss env_b (mgr c0) model_type))) \<and>
      count_loads (trace c) =
        count_loads (trace c0) + (if pc_a c = After_miss then 0 else 1) +
        (if pc_b c = After_miss then 0 else 1))"

text \<open>
  The operations a client of the manager can call, and the managers that a sequence of
  them reaches from a fresh one. Each operation is answered by the libraries in its own way.
\<close>

datatype operation =
    Load_model string bool
  | Load_tokenizer bool
  | Set_model_size string
  | Unload_model string
  | Clear_cache

fun apply_operation :: "torch_env \<Rightarrow> manager \<Rightarrow> operation \<Rightarrow> manager" where
  "apply_operation env s (Load_model model_type force_reload) =
     fst (snd (load_model env s model_type force_reload))"
| "apply_operation env s (Load_tokenizer force_reload) =
     fst (snd (load_tokenizer env s force_reload))"
| "apply_operation env s (Set_model_size msize) = fst (snd (set_model_size env s msize))"
| "apply_operation env s (Unload_model model_type) = fst (unload_model s model_type)"
| "apply_operation env s Clear_cache = fst (clear_cache env s)"

inductive reachable :: "manager \<Rightarrow> bool" where
  fresh: "reachable (init_manager msize dev dt)"
| after: "reachable s \<Longrightarrow> reachable (apply_operation env s opn)"

text \<open>
  The keys the active size defines, and the invariant of the cache: every key in it but
  the tokenizer's is one of them.
\<close>

definition defined_roles :: "manager \<Rightarrow> string set" where
  "defined_roles s =
     (case map_of MODEL_SIZES (model_size s) of
        None \<Rightarrow> {}
      | Some profile \<Rightarrow> fst ` set profile)"

definition cache_inv :: "manager \<Rightarrow> bool" where
  "cache_inv s = (\<forall>k \<in> dom (models s). k \<noteq> ''tokenizer'' \<longrightarrow> k \<in> defined_roles s)"

section \<open>audio\_utils.py\<close>

text \<open>
  A waveform is a numpy array of shape (frames) or (frames, channels). Samples are real
  numbers here: the rounding of floating-point arithmetic is not modelled. Arrays of other
  ranks are left out. What \<^verbatim>\<open>soundfile\<close>, \<^verbatim>\<open>librosa\<close>, \<^verbatim>\<open>pydub\<close>, \<^verbatim>\<open>tempfile\<close> and
  the file system answer during one call is a parameter, as for the manager.
\<close>

datatype audio_source = Ndarray ndarray | Bytes bytes | Path_str string | Other_type string

datatype "output" = Out_bytes bytes | Out_path string | Out_none

record audio_env =
  sf_read_buffer :: "bytes \<Rightarrow> py_exn + ndarray \<times> int"
  sf_read_path :: "string \<Rightarrow> py_exn + ndarray \<times> int"
  path_exists :: "string \<Rightarrow> bool"
  import_librosa :: "py_exn option"
  librosa_resample :: "real list \<Rightarrow> int \<Rightarrow> int \<Rightarrow> py_exn + real list"
  sf_write_path :: "string \<Rightarrow> ndarray \<Rightarrow> int \<Rightarrow> py_exn option"
  sf_write_buffer :: "ndarray \<Rightarrow> int \<Rightarrow> py_exn + bytes"
  import_pydub :: "py_exn option"
  named_temporary_file :: "py_exn + string"
  from_wav :: "string \<Rightarrow> py_exn + handle"
  export_path :: "handle \<Rightarrow> string \<Rightarrow> string \<Rightarrow> py_exn option"
  export_buffer :: "handle \<Rightarrow> string \<Rightarrow> py_exn + bytes"

definition SUPPORTED_FORMATS :: "string list" where
  "SUPPORTED_FORMATS = [''wav'', ''mp3'', ''ogg'']"

text \<open>
  The handler \<^verbatim>\<open>except Exception as e: logger.error(...); raise\<close> that closes
  \<^verbatim>\<open>save_audio\<close> and \<^verbatim>\<open>load_audio\<close>.
\<close>

definition log_and_reraise ::
  "string \<Rightarrow> (py_exn + 'a) \<times> effect list \<Rightarrow> (py_exn + 'a) \<times> effect list" where
  "log_and_reraise msg rt =
     (case rt of
        (Inl e, t) \<Rightarrow>
          (Inl e, t @ (if isinstance e ''Exception'' then [Log ERROR msg [S (exn_str e)]] else []))
      | (Inr v, t) \<Rightarrow> (Inr v, t))"

text \<open>\<^verbatim>\<open>if output_path:\<close> holds for a string that is not empty.\<close>

definition truthy_path :: "string option \<Rightarrow> bool" where
  "truthy_path output_path = (case output_path of None \<Rightarrow> False | Some p \<Rightarrow> p \<noteq> [])"

text \<open>The branch of \<^verbatim>\<open>save_audio\<close> for wav (lines 45 to 54).\<close>

definition save_wav ::
  "audio_env \<Rightarrow> ndarray \<Rightarrow> int \<Rightarrow> string option \<Rightarrow> (py_exn + output) \<times> effect list" where
  "save_wav env audio_data sample_rate output_path =
     (if truthy_path output_path then
        (case sf_write_path env (the output_path) audio_data sample_rate of
           Some e \<Rightarrow> (Inl e, [Sf_write_path (the output_path) audio_data sample_rate])
         | None \<Rightarrow>
             (Inr (Out_path (the output_path)),
              [Sf_write_path (the output_path) audio_data sample_rate,
               Log INFO ''Saved WAV audio to {output_path}'' [S (the output_path)]]))
      else
        (case sf_write_buffer env audio_data sample_rate of
           Inl e \<Rightarrow> (Inl e, [Sf_write_buffer audio_data sample_rate])
         | Inr b \<Rightarrow> (Inr (Out_bytes b), [Sf_write_buffer audio_data sample_rate])))"

text \<open>The branch for mp3 and ogg once \<^verbatim>\<open>pydub\<close> is imported (lines 64 to 79).\<close>

definition transcode ::
  "audio_env \<Rightarrow> ndarray \<Rightarrow> int \<Rightarrow> string \<Rightarrow> string option \<Rightarrow> (py_exn + output) \<times> effect list" where
  "transcode env audio_data sample_rate format output_path =
     (case named_temporary_file env of
        Inl e \<Rightarrow> (Inl e, [Named_temporary_file])
      | Inr tmp \<Rightarrow>
          (case sf_write_path env tmp audio_data sample_rate of
             Some e \<Rightarrow> (Inl e, [Named_temporary_file, Sf_write_path tmp audio_data sample_rate])
           | None \<Rightarrow>
               (case from_wav env tmp of
                  Inl e \<Rightarrow>
                    (Inl e, [Named_temporary_file, Sf_write_path tmp audio_data sample_rate,
                             From_wav tmp])
                | Inr audio \<Rightarrow>
                    if truthy_path output_path then
                      (case export_path env audio (the output_path) (lower format) of
                         Some e \<Rightarrow>
                           (Inl e, [Named_temporary_file,
                                    Sf_write_path tmp audio_data sample_rate, From_wav tmp,
                                    Export_path audio (the output_path) (lower format)])
                       | None \<Rightarrow>
                           (Inr (Out_path (the output_path)),
                            [Named_temporary_file,
                             Sf_write_path tmp audio_data sample_rate, From_wav tmp,
                             Export_path audio (the output_path) (lower format),
                             Log INFO ''Saved {format.upper()} audio to {output_path}''
                               [S (upper format), S (the output_path)]]))
                    else
                      (case export_buffer env audio (lower format) of
                         Inl e \<Rightarrow>
                           (Inl e, [Named_temporary_file,
                                    Sf_write_path tmp audio_data sample_rate, From_wav tmp,
                                    Export_buffer audio (lower format)])
                       | Inr b \<Rightarrow>
                           (Inr (Out_bytes b),
                            [Named_temporary_file,
                             Sf_write_path tmp audio_data sample_rate, From_wav tmp,
                             Export_buffer audio (lower format)])))))"

text \<open>
  \<^verbatim>\<open>AudioProcessor.save_audio\<close>. When the import of \<^verbatim>\<open>pydub\<close> raises an
  \<^verbatim>\<open>ImportError\<close> the function calls itself with the format \<^verbatim>\<open>"wav"\<close>.
\<close>

function save_audio ::
  "audio_env \<Rightarrow> ndarray \<Rightarrow> int \<Rightarrow> string \<Rightarrow> string option \<Rightarrow> (py_exn + output) \<times> effect list" where
  "save_audio env audio_data sample_rate format output_path =
     (if lower format \<notin> set SUPPORTED_FORMATS
      then (Inl (ValueError (''Unsupported format: '' @ format @ ''. Use '' @
                    py_repr_list SUPPORTED_FORMATS)), [])
      else
        log_and_reraise ''Failed to save audio: {str(e)}''
          (if lower format = ''wav'' then save_wav env audio_data sample_rate output_path
           else if lower format \<in> set [''mp3'', ''ogg''] then
             (case import_pydub env of
                Some e \<Rightarrow>
                  if isinstance e ''ImportError''
                  then (case save_audio env audio_data sample_rate ''wav'' output_path of
                          (r, t) \<Rightarrow>
                            (r, Log WARNING ''pydub not available, returning WAV instead'' [] # t))
                  else (Inl e, [])
              | None \<Rightarrow> transcode env audio_data sample_rate format output_path)
           else (Inr Out_none, [])))"
  by pat_completeness auto
termination
  by (relation "measure (\<lambda>(env, audio_data, sample_rate, format, output_path).
        if lower format = ''wav'' then 0 else 1)")
     (auto simp: lower_def lower_char_def)

declare save_audio.simps [simp del]

text \<open>\<^verbatim>\<open>AudioProcessor.load_audio\<close>, in the three stages of its \<^verbatim>\<open>try\<close>.\<close>

definition acquire ::
  "audio_env \<Rightarrow> audio_source \<Rightarrow> int option \<Rightarrow> (py_exn + ndarray \<times> int) \<times> effect list" where
  "acquire env audio_source sample_rate =
     (case audio_source of
        Ndarray a \<Rightarrow>
          (case sample_rate of
             None \<Rightarrow>
               (Inl (ValueError ''sample_rate required when audio_source is numpy array''), [])
           | Some sr \<Rightarrow> (Inr (a, sr), []))
      | Bytes b \<Rightarrow> (sf_read_buffer env b, [Sf_read_buffer b])
      | Path_str p \<Rightarrow>
          if \<not> path_exists env p
          then (Inl (FileNotFoundError (''Audio file not found: '' @ p)), [])
          else (sf_read_path env p, [Sf_read_path p])
      | Other_type ty \<Rightarrow> (Inl (TypeError (''Unsupported audio source type: '' @ ty)), []))"

text \<open>\<^verbatim>\<open>np.mean(audio_data, axis=1)\<close>: for every frame, the sum of its channels over their number.\<close>

definition mean_axis1 :: "real list list \<Rightarrow> real list" where
  "mean_axis1 rows = map (\<lambda>row. sum_list row / real (length row)) rows"

definition ensure_mono :: "ndarray \<Rightarrow> real list \<times> effect list" where
  "ensure_mono audio_data =
     (case audio_data of
        Arr1 xs \<Rightarrow> (xs, [])
      | Arr2 rows \<Rightarrow> (mean_axis1 rows, [Log INFO ''Converted stereo audio to mono'' []]))"

text \<open>
  Lines 128 to 135. \<^verbatim>\<open>if sample_rate and ...\<close> fails for \<^verbatim>\<open>None\<close> and for 0. An
  \<^verbatim>\<open>ImportError\<close> from the import or from the call is logged and the audio is kept;
  the log after a resampling prints the new rate twice, \<^verbatim>\<open>loaded_sr\<close> being assigned first.
\<close>

definition resample_if_needed ::
  "audio_env \<Rightarrow> real list \<Rightarrow> int \<Rightarrow> int option \<Rightarrow> (py_exn + real list \<times> int) \<times> effect list" where
  "resample_if_needed env xs loaded_sr sample_rate =
     (case sample_rate of
        None \<Rightarrow> (Inr (xs, loaded_sr), [])
      | Some sr \<Rightarrow>
          if sr \<noteq> 0 \<and> loaded_sr \<noteq> sr then
            (case import_librosa env of
               Some e \<Rightarrow>
                 if isinstance e ''ImportError''
                 then (Inr (xs, loaded_sr),
                       [Log WARNING ''librosa not available for resampling'' []])
                 else (Inl e, [])
             | None \<Rightarrow>
                 (case librosa_resample env xs loaded_sr sr of
                    Inl e \<Rightarrow>
                      if isinstance e ''ImportError''
                      then (Inr (xs, loaded_sr),
                            [Librosa_resample xs loaded_sr sr,
                             Log WARNING ''librosa not available for resampling'' []])
                      else (Inl e, [Librosa_resample xs loaded_sr sr])
                  | Inr ys \<Rightarrow>
                      (Inr (ys, sr),
                       [Librosa_resample xs loaded_sr sr,
                        Log INFO ''Resampled audio from {loaded_sr} to {sample_rate} Hz''
                          [I sr, I sr]])))
          else (Inr (xs, loaded_sr), []))"

definition load_audio ::
  "audio_env \<Rightarrow> audio_source \<Rightarrow> int option \<Rightarrow> (py_exn + ndarray \<times> int) \<times> effect list" where
  "load_audio env audio_source sample_rate =
     log_and_reraise ''Failed to load audio: {str(e)}''
       (case acquire env audio_source sample_rate of
          (Inl e, t) \<Rightarrow> (Inl e, t)
        | (Inr (audio_data, loaded_sr), t) \<Rightarrow>
            (case ensure_mono audio_data of
               (mono_data, t2) \<Rightarrow>
                 (case resample_if_needed env mono_data loaded_sr sample_rate of
                    (Inl e, t3) \<Rightarrow> (Inl e, t @ t2 @ t3)
                  | (Inr (ys, sr), t3) \<Rightarrow> (Inr (Arr1 ys, sr), t @ t2 @ t3))))"

text \<open>
  \<^verbatim>\<open>AudioProcessor.validate_audio_duration\<close>. \<^verbatim>\<open>len\<close> of an array is the length of its
  first axis, the number of frames; dividing by a sample rate of 0 raises.
\<close>

definition len :: "ndarray \<Rightarrow> nat" where
  "len a = (case a of Arr1 xs \<Rightarrow> length xs | Arr2 rows \<Rightarrow> length rows)"

definition validate_audio_duration ::
  "ndarray \<Rightarrow> int \<Rightarrow> real \<Rightarrow> (py_exn + bool) \<times> effect list" where
  "validate_audio_duration audio_data sample_rate min_duration =
     (if sample_rate = 0 then (Inl (ZeroDivisionError ''division by zero''), [])
      else
        (let duration = real (len audio_data) / real_of_int sample_rate;
             is_valid = (duration \<ge> min_duration)
         in (Inr is_valid,
             if \<not> is_valid
             then [Log WARNING ''Audio duration {duration:.2f}s is less than {min_duration}s''
                     [R duration, R min_duration]]
             else [])))"

section \<open>Concrete library behaviours used in the examples\<close>

text \<open>
  A CPU-only machine on which every load returns the object \<open>h\<close>, and one on which
  every load raises \<open>e\<close>.
\<close>

definition cpu_env :: "handle \<Rightarrow> torch_env" where
  "cpu_env h =
     \<lparr>from_pretrained = (\<lambda>model_id dev dt. Inr h),
      model_eval = (\<lambda>m. None),
      cuda_is_available = False,
      import_torch_dynamo = None,
      tokenizer_from_pretrained = (\<lambda>model_id dev. Inr h)\<rparr>"

definition failing_env :: "py_exn \<Rightarrow> torch_env" where
  "failing_env e =
     \<lparr>from_pretrained = (\<lambda>model_id dev dt. Inl e),
      model_eval = (\<lambda>m. None),
      cuda_is_available = False,
      import_torch_dynamo = None,
      tokenizer_from_pretrained = (\<lambda>model_id dev. Inl e)\<rparr>"

text \<open>
  A machine with neither \<^verbatim>\<open>librosa\<close> nor \<^verbatim>\<open>pydub\<close> installed, on which every read
  decodes to \<open>decoded\<close> at \<open>rate\<close>, every write succeeds and a write to memory gives
  the bytes \<open>encoded\<close>.
\<close>

definition bare_env :: "ndarray \<Rightarrow> int \<Rightarrow> bytes \<Rightarrow> audio_env" where
  "bare_env decoded rate encoded =
     \<lparr>sf_read_buffer = (\<lambda>b. Inr (decoded, rate)),
      sf_read_path = (\<lambda>p. Inr (decoded, rate)),
      path_exists = (\<lambda>p. True),
      import_librosa = Some (ModuleNotFoundError ''No module named librosa''),
      librosa_resample = (\<lambda>xs orig_sr target_sr. Inr xs),
      sf_write_path = (\<lambda>p a sr. None),
      sf_write_buffer = (\<lambda>a sr. Inr encoded),
      import_pydub = Some (ModuleNotFoundError ''No module named pydub''),
      named_temporary_file = Inr ''/tmp/tmp0.wav'',
      from_wav = (\<lambda>p. Inr 0),
      export_path = (\<lambda>seg p fmt. None),
      export_buffer = (\<lambda>seg fmt. Inr [])\<rparr>"


text \<open>
  A codec that stores one-channel audio as \<^verbatim>\<open>soundfile\<close> does by default for WAV, in
  16-bit PCM: a sample \<open>x\<close> is stored as the greatest integer not above \<open>32768 x\<close>, clipped to the
  16-bit range, in two bytes, and read back as that integer over 32768. The container is
  reduced to the sample rate in four bytes followed by the samples. Everything else is
  as in \<open>bare_env\<close>.
\<close>

definition le_bytes2 :: "int \<Rightarrow> bytes" where
  "le_bytes2 k = [nat (k mod 256), nat (k div 256 mod 256)]"

definition le_bytes4 :: "int \<Rightarrow> bytes" where
  "le_bytes4 k =
     [nat (k mod 256), nat (k div 256 mod 256), nat (k div 256 div 256 mod 256),
      nat (k div 256 div 256 div 256 mod 256)]"

definition quantise16 :: "real \<Rightarrow> int" where
  "quantise16 x = max (- 32768) (min 32767 \<lfloor>x * 32768\<rfloor>)"

definition pcm16 :: "real \<Rightarrow> real" where
  "pcm16 x = real_of_int (quantise16 x) / 32768"

fun decode_pcm16 :: "bytes \<Rightarrow> real list" where
  "decode_pcm16 (lo # hi # rest) =
     real_of_int
       (if 32768 \<le> int lo + 256 * int hi then int lo + 256 * int hi - 65536
        else int lo + 256 * int hi) / 32768 # decode_pcm16 rest"
| "decode_pcm16 [lo] = []"
| "decode_pcm16 [] = []"

definition pcm16_write :: "ndarray \<Rightarrow> int \<Rightarrow> py_exn + bytes" where
  "pcm16_write a sr =
     (case a of
        Arr1 xs \<Rightarrow> Inr (le_bytes4 sr @ concat (map (\<lambda>x. le_bytes2 (quantise16 x)) xs))
      | Arr2 rows \<Rightarrow>
          Inl (Exn [''NotImplementedError'', ''RuntimeError'', ''Exception'', ''BaseException'']
                 ''one channel only''))"

definition pcm16_read :: "bytes \<Rightarrow> py_exn + ndarray \<times> int" where
  "pcm16_read b =
     (case b of
        b0 # b1 # b2 # b3 # rest \<Rightarrow>
          Inr (Arr1 (decode_pcm16 rest),
               int b0 + 256 * (int b1 + 256 * (int b2 + 256 * int b3)))
      | _ \<Rightarrow>
          Inl (Exn [''LibsndfileError'', ''RuntimeError'', ''Exception'', ''BaseException'']
                 ''Format not recognised.''))"

definition pcm16_env :: audio_env where
  "pcm16_env =
     (bare_env (Arr1 []) 0 [])\<lparr>sf_read_buffer := pcm16_read, sf_write_buffer := pcm16_write\<rparr>"

section \<open>Properties of the model manager\<close>

lemma count_loads_simps:
  "count_loads [] = 0"
  "count_loads (e # t) = (if is_load e then 1 else 0) + count_loads t"
  "count_loads (t @ u) = count_loads t + count_loads u"
  by (simp_all add: count_loads_def)


lemma defined_roles_models_update [simp]:
  "defined_roles (s\<lparr>models := m\<rparr>) = defined_roles s"
  by (simp add: defined_roles_def)

lemma load_model_try_result:
  "load_model_try env s model_type model_id = (r, s', t) \<Longrightarrow>
     count_loads t = 1 \<and>
     (case r of Inl e \<Rightarrow> s' = s
              | Inr h \<Rightarrow> s' = s\<lparr>models := (models s)(model_type \<mapsto> h)\<rparr>)"
  by (auto simp: load_model_try_def cpu_optimize_def count_loads_def
      split: sum.splits option.splits prod.splits if_splits)

lemma load_model_miss_result:
  assumes "load_model_miss env s model_type = (r, s', t)"
  shows "count_loads t \<le> 1"
    and "\<And>e. r = Inl e \<Longrightarrow> s' = s"
    and "\<And>h. r = Inr h \<Longrightarrow>
           s' = s\<lparr>models := (models s)(model_type \<mapsto> h)\<rparr> \<and> model_type \<in> defined_roles s"
proof -
  show "count_loads t \<le> 1"
    using assms
    by (auto simp: load_model_miss_def count_loads_simps
        split: option.splits sum.splits prod.splits if_splits
        dest!: load_model_try_result)
  show "\<And>e. r = Inl e \<Longrightarrow> s' = s"
    using assms
    by (auto simp: load_model_miss_def
        split: option.splits sum.splits prod.splits if_splits
        dest!: load_model_try_result)
  show "\<And>h. r = Inr h \<Longrightarrow>
           s' = s\<lparr>models := (models s)(model_type \<mapsto> h)\<rparr> \<and> model_type \<in> defined_roles s"
    using assms
    by (auto simp: load_model_miss_def defined_roles_def
        split: option.splits sum.splits prod.splits if_splits
        dest!: load_model_try_result map_of_SomeD intro: rev_image_eqI)
qed

lemma load_model_miss_defined_count:
  assumes "map_of MODEL_SIZES (model_size s) = Some profile"
    and "map_of profile model_type = Some model_id"
    and "load_model_miss env s model_type = (r, s', t)"
  shows "count_loads t = 1"
  using assms
  by (auto simp: load_model_miss_def count_loads_simps
      split: option.splits sum.splits prod.splits if_splits
      dest!: load_model_try_result)

lemma load_model_hit:
  "models s model_type = Some h \<Longrightarrow>
     load_model env s model_type False =
       (Inr h, s, [Log INFO ''Using cached {model_type} model'' [S model_type]])"
  by (simp add: load_model_def)

lemma load_model_result:
  assumes "load_model env s model_type force_reload = (r, s', t)"
  shows "count_loads t \<le> 1"
    and "\<And>e. r = Inl e \<Longrightarrow> s' = s"
    and "\<And>h. r = Inr h \<Longrightarrow> models s' model_type = Some h"
    and "\<And>h. r = Inr h \<Longrightarrow>
           s' = s \<or>
           (s' = s\<lparr>models := (models s)(model_type \<mapsto> h)\<rparr> \<and> model_type \<in> defined_roles s)"
proof -
  show "count_loads t \<le> 1"
    using assms load_model_miss_result(1)
    by (auto simp: load_model_def count_loads_simps split: option.splits if_splits)
  show "\<And>e. r = Inl e \<Longrightarrow> s' = s"
    using assms load_model_miss_result(2)
    by (auto simp: load_model_def split: option.splits if_splits)
  show "\<And>h. r = Inr h \<Longrightarrow> models s' model_type = Some h"
    using assms
    by (auto simp: load_model_def split: option.splits if_splits
        dest!: load_model_miss_result(3))
  show "\<And>h. r = Inr h \<Longrightarrow>
           s' = s \<or>
           (s' = s\<lparr>models := (models s)(model_type \<mapsto> h)\<rparr> \<and> model_type \<in> defined_roles s)"
    using assms
    by (auto simp: load_model_def split: option.splits if_splits
        dest!: load_model_miss_result(3))
qed

subsection \<open>Loading twice\<close>

text \<open>
  Claim C3, as amended. For a role that the active size defines, two calls of
  \<^verbatim>\<open>load_model\<close> in a row without \<^verbatim>\<open>force_reload\<close>, answered by the libraries with
  \<open>env1\<close> and \<open>env2\<close>. The first calls \<^verbatim>\<open>from_pretrained\<close> at most once. It returns
  a handle whenever the role is cached (with no load) or \<^verbatim>\<open>from_pretrained\<close>,
  \<^verbatim>\<open>model.eval()\<close> and the CPU set-up do not raise (with one load). When the first call
  returns a handle, the second returns the same handle, calls \<^verbatim>\<open>from_pretrained\<close> not at
  all and leaves the manager, its cache included, as the first call left it: one load at
  most across the two. When the first call raises, it has loaded once and cached nothing,
  and the second call is a call on the unchanged manager: it loads again.
\<close>

theorem C3_load_twice_after_success:
  assumes "map_of MODEL_SIZES (model_size s) = Some profile"
    and "map_of profile model_type = Some model_id"
    and "load_model env1 s model_type False = (r1, s1, t1)"
    and "load_model env2 s1 model_type False = (r2, s2, t2)"
  shows "count_loads t1 \<le> 1 \<and>
         (\<forall>h. r1 = Inr h \<longrightarrow>
            r2 = Inr h \<and> s2 = s1 \<and> count_loads t2 = 0 \<and> count_loads (t1 @ t2) \<le> 1) \<and>
         (\<forall>h. models s model_type = Some h \<longrightarrow> r1 = Inr h \<and> count_loads t1 = 0) \<and>
         (\<forall>h. models s model_type = None \<longrightarrow>
            from_pretrained env1 model_id (device s) (dtype s) = Inr h \<longrightarrow>
            model_eval env1 h = None \<longrightarrow> fst (cpu_optimize env1) = None \<longrightarrow>
            r1 = Inr h \<and> count_loads t1 = 1) \<and>
         (\<forall>e. r1 = Inl e \<longrightarrow>
            s1 = s \<and> count_loads t1 = 1 \<and>
            (r2, s2, t2) = load_model env2 s model_type False)"
proof -
  have one: "count_loads t1 \<le> 1"
    using assms(3) by (rule load_model_result(1))
  have again: "r2 = Inr h \<and> s2 = s1 \<and> count_loads t2 = 0 \<and> count_loads (t1 @ t2) \<le> 1"
    if "r1 = Inr h" for h
  proof -
    from assms(3) that have "models s1 model_type = Some h"
      by (simp add: load_model_result(3))
    then have "load_model env2 s1 model_type False =
        (Inr h, s1, [Log INFO ''Using cached {model_type} model'' [S model_type]])"
      by (rule load_model_hit)
    with assms(4) one show ?thesis
      by (auto simp: count_loads_simps)
  qed
  have hit: "r1 = Inr h \<and> count_loads t1 = 0" if "models s model_type = Some h" for h
    using assms(3) load_model_hit [OF that, of env1]
    by (auto simp: count_loads_simps)
  have loaded: "r1 = Inr h \<and> count_loads t1 = 1"
    if nc: "models s model_type = None"
      and fp: "from_pretrained env1 model_id (device s) (dtype s) = Inr h"
      and ev: "model_eval env1 h = None" and opt: "fst (cpu_optimize env1) = None" for h
  proof -
    obtain u where u: "cpu_optimize env1 = (None, u)"
      using opt by (cases "cpu_optimize env1") simp
    have "load_model_try env1 s model_type model_id =
        (Inr h, s\<lparr>models := (models s)(model_type \<mapsto> h)\<rparr>,
         [From_pretrained model_id, Model_eval h] @ u @
         [Log INFO ''Successfully loaded {model_type} model ({self.model_size})''
            [S model_type, S (model_size s)]])"
      by (simp add: load_model_try_def fp ev u)
    then have "load_model env1 s model_type False =
        (Inr h, s\<lparr>models := (models s)(model_type \<mapsto> h)\<rparr>,
         Log INFO ''Loading {model_type} model ({self.model_size}) from {model_id}''
           [S model_type, S (model_size s), S model_id] #
         [From_pretrained model_id, Model_eval h] @ u @
         [Log INFO ''Successfully loaded {model_type} model ({self.model_size})''
            [S model_type, S (model_size s)]])"
      by (simp add: load_model_def load_model_miss_def nc assms(1,2))
    with assms(3) have r: "r1 = Inr h"
      and t: "t1 =
         Log INFO ''Loading {model_type} model ({self.model_size}) from {model_id}''
           [S model_type, S (model_size s), S model_id] #
         [From_pretrained model_id, Model_eval h] @ u @
         [Log INFO ''Successfully loaded {model_type} model ({self.model_size})''
            [S model_type, S (model_size s)]]"
      by simp_all
    have "load_model_miss env1 s model_type = (r1, s1, t1)"
      using assms(3) nc by (simp add: load_model_def)
    with assms(1,2) have "count_loads t1 = 1"
      by (rule load_model_miss_defined_count)
    with r show ?thesis by simp
  qed
  have failed: "s1 = s \<and> count_loads t1 = 1 \<and> (r2, s2, t2) = load_model env2 s model_type False"
    if "r1 = Inl e" for e
  proof -
    from assms(3) that have same: "s1 = s"
      by (simp add: load_model_result(2))
    have "models s model_type = None"
    proof (cases "models s model_type")
      case None
      then show ?thesis .
    next
      case (Some h)
      with hit that show ?thesis by simp
    qed
    with assms(3) have "load_model_miss env1 s model_type = (r1, s1, t1)"
      by (simp add: load_model_def)
    with assms(1,2) have "count_loads t1 = 1"
      by (rule load_model_miss_defined_count)
    with same assms(4) show ?thesis by simp
  qed
  from one again hit loaded failed show ?thesis
    by blast
qed


theorem C3_load_twice_after_success_witness:
  "fst (load_model (cpu_env 1) (init_manager ''1.7B'' ''cpu'' ''float32'') ''custom_voice'' False) =
     Inr 1 \<and>
   fst (load_model (cpu_env 2)
          (fst (snd (load_model (cpu_env 1)
             (init_manager ''1.7B'' ''cpu'' ''float32'') ''custom_voice'' False)))
          ''custom_voice'' False) = Inr 1 \<and>
   count_loads
     (snd (snd (load_model (cpu_env 1)
        (init_manager ''1.7B'' ''cpu'' ''float32'') ''custom_voice'' False)) @
      snd (snd (load_model (cpu_env 2)
          (fst (snd (load_model (cpu_env 1)
             (init_manager ''1.7B'' ''cpu'' ''float32'') ''custom_voice'' False)))
          ''custom_voice'' False))) \<le> 1"
proof -
  let ?s = "init_manager ''1.7B'' ''cpu'' ''float32''"
  let ?id = "''Qwen/Qwen3-TTS-12Hz-1.7B-CustomVoice''"
  obtain r1 s1 t1 where c1: "load_model (cpu_env 1) ?s ''custom_voice'' False = (r1, s1, t1)"
    by (metis prod_cases3)
  obtain r2 s2 t2 where c2: "load_model (cpu_env 2) s1 ''custom_voice'' False = (r2, s2, t2)"
    by (metis prod_cases3)
  have a: "map_of MODEL_SIZES (model_size ?s) =
      Some [(''custom_voice'', ?id),
            (''voice_design'', ''Qwen/Qwen3-TTS-12Hz-1.7B-VoiceDesign''),
            (''voice_clone'', ''Qwen/Qwen3-TTS-12Hz-1.7B-Base'')]"
    by (simp add: MODEL_SIZES_def init_manager_def)
  have b: "map_of [(''custom_voice'', ?id),
            (''voice_design'', ''Qwen/Qwen3-TTS-12Hz-1.7B-VoiceDesign''),
            (''voice_clone'', ''Qwen/Qwen3-TTS-12Hz-1.7B-Base'')] ''custom_voice'' = Some ?id"
    by simp
  have miss: "models ?s ''custom_voice'' = None"
    by (simp add: init_manager_def)
  have fp: "from_pretrained (cpu_env 1) ?id (device ?s) (dtype ?s) = Inr 1"
    by (simp add: cpu_env_def)
  have ev: "model_eval (cpu_env 1) 1 = None"
    by (simp add: cpu_env_def)
  have opt: "fst (cpu_optimize (cpu_env 1)) = None"
    by (simp add: cpu_optimize_def cpu_env_def)
  from C3_load_twice_after_success [OF a b c1 c2] miss fp ev opt
  have r1: "r1 = Inr 1"
    by blast
  with C3_load_twice_after_success [OF a b c1 c2]
  have r2: "r2 = Inr 1" and n: "count_loads (t1 @ t2) \<le> 1"
    by blast+
  from r1 r2 n c1 c2 show ?thesis
    by simp
qed


text \<open>
  The claim as stated bounds the two calls by one load whatever the first call does. When
  the first load raises and the second is answered, \<^verbatim>\<open>from_pretrained\<close> runs twice and the
  second call changes the cache.
\<close>

theorem C3_failed_first_load_counterexample:
  "fst (load_model (failing_env (Exn [''OSError'', ''Exception'', ''BaseException''] ''timed out''))
          (init_manager ''1.7B'' ''cpu'' ''float32'') ''custom_voice'' False) =
     Inl (Exn [''OSError'', ''Exception'', ''BaseException''] ''timed out'') \<and>
   fst (snd (load_model
          (failing_env (Exn [''OSError'', ''Exception'', ''BaseException''] ''timed out''))
          (init_manager ''1.7B'' ''cpu'' ''float32'') ''custom_voice'' False)) =
     init_manager ''1.7B'' ''cpu'' ''float32'' \<and>
   count_loads
     (snd (snd (load_model
        (failing_env (Exn [''OSError'', ''Exception'', ''BaseException''] ''timed out''))
        (init_manager ''1.7B'' ''cpu'' ''float32'') ''custom_voice'' False)) @
      snd (snd (load_model (cpu_env 2) (init_manager ''1.7B'' ''cpu'' ''float32'')
        ''custom_voice'' False))) = 2 \<and>
   models (init_manager ''1.7B'' ''cpu'' ''float32'') ''custom_voice'' = None \<and>
   models (fst (snd (load_model (cpu_env 2) (init_manager ''1.7B'' ''cpu'' ''float32'')
        ''custom_voice'' False))) ''custom_voice'' = Some 2"
  by (simp add: load_model_def load_model_miss_def load_model_try_def cpu_optimize_def
      failing_env_def cpu_env_def init_manager_def MODEL_SIZES_def count_loads_def
      isinstance_def)

subsection \<open>A failing load\<close>

text \<open>
  Claim C5, as amended. For a role that the active size defines, on a call that reaches
  the load (the role is not cached, or \<^verbatim>\<open>force_reload\<close> is set): when
  \<^verbatim>\<open>from_pretrained\<close> or \<^verbatim>\<open>model.eval()\<close> raises \<open>e\<close>, \<^verbatim>\<open>load_model\<close> raises that same
  \<open>e\<close>, not wrapped in any other error; the manager, its cache included, is exactly as before;
  \<^verbatim>\<open>from_pretrained\<close> was called once; and when \<open>e\<close> is an \<^verbatim>\<open>Exception\<close> the last thing
  logged is an error that names the role and \<^verbatim>\<open>str(e)\<close> (not the model identifier).
\<close>

theorem C5_load_failure_propagates_unchanged:
  assumes "map_of MODEL_SIZES (model_size s) = Some profile"
    and "map_of profile model_type = Some model_id"
    and "force_reload \<or> models s model_type = None"
    and "from_pretrained env model_id (device s) (dtype s) = Inl e \<or>
         (\<exists>h. from_pretrained env model_id (device s) (dtype s) = Inr h \<and>
              model_eval env h = Some e)"
  shows "fst (load_model env s model_type force_reload) = Inl e \<and>
         fst (snd (load_model env s model_type force_reload)) = s \<and>
         count_loads (snd (snd (load_model env s model_type force_reload))) = 1 \<and>
         (isinstance e ''Exception'' \<longrightarrow>
            last (snd (snd (load_model env s model_type force_reload))) =
              Log ERROR ''Failed to load {model_type} model: {str(e)}''
                [S model_type, S (exn_str e)])"
proof -
  have miss: "load_model env s model_type force_reload = load_model_miss env s model_type"
    using assms(3) by (auto simp: load_model_def split: option.splits)
  show ?thesis
    unfolding miss using assms(1,2,4)
    by (auto simp: load_model_miss_def load_model_try_def count_loads_simps)
qed


theorem C5_load_failure_propagates_unchanged_witness:
  "fst (load_model (failing_env (Exn [''OSError'', ''Exception'', ''BaseException''] ''connection reset''))
          (fst (snd (load_model (cpu_env 1) (init_manager ''1.7B'' ''cpu'' ''float32'')
             ''voice_design'' False)))
          ''voice_design'' True) =
     Inl (Exn [''OSError'', ''Exception'', ''BaseException''] ''connection reset'') \<and>
   models (fst (snd (load_model
          (failing_env (Exn [''OSError'', ''Exception'', ''BaseException''] ''connection reset''))
          (fst (snd (load_model (cpu_env 1) (init_manager ''1.7B'' ''cpu'' ''float32'')
             ''voice_design'' False)))
          ''voice_design'' True))) ''voice_design'' = Some 1"
proof -
  let ?e = "Exn [''OSError'', ''Exception'', ''BaseException''] ''connection reset''"
  let ?s = "fst (snd (load_model (cpu_env 1) (init_manager ''1.7B'' ''cpu'' ''float32'')
             ''voice_design'' False))"
  have s: "?s = \<lparr>models = [''voice_design'' \<mapsto> 1], model_size = ''1.7B'',
                 device = ''cpu'', dtype = ''float32''\<rparr>"
    by (simp add: load_model_def load_model_miss_def load_model_try_def cpu_optimize_def
        cpu_env_def init_manager_def MODEL_SIZES_def)
  have a: "map_of MODEL_SIZES (model_size ?s) =
      Some [(''custom_voice'', ''Qwen/Qwen3-TTS-12Hz-1.7B-CustomVoice''),
            (''voice_design'', ''Qwen/Qwen3-TTS-12Hz-1.7B-VoiceDesign''),
            (''voice_clone'', ''Qwen/Qwen3-TTS-12Hz-1.7B-Base'')]"
    unfolding s by (simp add: MODEL_SIZES_def)
  have b: "map_of [(''custom_voice'', ''Qwen/Qwen3-TTS-12Hz-1.7B-CustomVoice''),
            (''voice_design'', ''Qwen/Qwen3-TTS-12Hz-1.7B-VoiceDesign''),
            (''voice_clone'', ''Qwen/Qwen3-TTS-12Hz-1.7B-Base'')] ''voice_design'' =
      Some ''Qwen/Qwen3-TTS-12Hz-1.7B-VoiceDesign''"
    by simp
  have c: "True \<or> models ?s ''voice_design'' = None"
    by simp
  have d: "from_pretrained (failing_env ?e) ''Qwen/Qwen3-TTS-12Hz-1.7B-VoiceDesign''
             (device ?s) (dtype ?s) = Inl ?e \<or>
           (\<exists>h. from_pretrained (failing_env ?e) ''Qwen/Qwen3-TTS-12Hz-1.7B-VoiceDesign''
             (device ?s) (dtype ?s) = Inr h \<and> model_eval (failing_env ?e) h = Some ?e)"
    by (simp add: failing_env_def)
  have m: "models ?s ''voice_design'' = Some 1"
    unfolding s by simp
  from C5_load_failure_propagates_unchanged [OF a b c d]
  have r1: "fst (load_model (failing_env ?e) ?s ''voice_design'' True) = Inl ?e"
    and r2: "fst (snd (load_model (failing_env ?e) ?s ''voice_design'' True)) = ?s"
    by blast+
  show ?thesis
    by (simp only: r1 r2 m)
qed


text \<open>
  The claim as stated asks for a \<^verbatim>\<open>ModelLoadError\<close> that carries the role and the model
  identifier. When the library raises an \<^verbatim>\<open>OSError\<close>, that \<^verbatim>\<open>OSError\<close> is what the caller gets.
\<close>

theorem C5_not_a_model_load_error_counterexample:
  "fst (load_model (failing_env (Exn [''OSError'', ''Exception'', ''BaseException''] ''connection reset''))
          (init_manager ''1.7B'' ''cpu'' ''float32'') ''custom_voice'' False) =
     Inl (Exn [''OSError'', ''Exception'', ''BaseException''] ''connection reset'') \<and>
   \<not> isinstance (Exn [''OSError'', ''Exception'', ''BaseException''] ''connection reset'')
        ''ModelLoadError''"
  by (simp add: load_model_def load_model_miss_def load_model_try_def failing_env_def
      init_manager_def MODEL_SIZES_def isinstance_def)

subsection \<open>Calls that overlap\<close>

lemma load_model_try_fst:
  assumes "device s = device s0" and "dtype s = dtype s0"
  shows "fst (load_model_try env s model_type model_id) =
         fst (load_model_try env s0 model_type model_id)"
  using assms
  by (simp add: load_model_try_def split: sum.splits option.splits prod.splits)

lemma load_model_miss_fst_unfold:
  "fst (load_model_miss env s model_type) =
     (case map_of MODEL_SIZES (model_size s) of
        None \<Rightarrow> Inl (KeyError (model_size s))
      | Some profile \<Rightarrow>
          (case map_of profile model_type of
             None \<Rightarrow>
               Inl (ValueError (''Unknown model type: '' @ model_type @ ''. Available: '' @
                      py_repr_list (map fst profile)))
           | Some model_id \<Rightarrow> fst (load_model_try env s model_type model_id)))"
  by (simp add: load_model_miss_def split: option.splits sum.splits prod.splits)

lemma load_model_miss_fst:
  assumes "model_size s = model_size s0" and "device s = device s0" and "dtype s = dtype s0"
  shows "fst (load_model_miss env s model_type) = fst (load_model_miss env s0 model_type)"
  using assms load_model_try_fst [of s s0 env model_type]
  by (simp add: load_model_miss_fst_unfold split: option.splits)

lemma load_model_miss_keeps:
  assumes "load_model_miss env s model_type = (r, s', t)"
  shows "model_size s' = model_size s \<and> device s' = device s \<and> dtype s' = dtype s"
proof (cases r)
  case (Inl e)
  with assms have "s' = s" by (simp add: load_model_miss_result(2))
  then show ?thesis by simp
next
  case (Inr h)
  with assms have "s' = s\<lparr>models := (models s)(model_type \<mapsto> h)\<rparr>"
    by (simp add: load_model_miss_result(3))
  then show ?thesis by simp
qed

lemma past_check_sched_step:
  assumes "map_of MODEL_SIZES (model_size (mgr c0)) = Some profile"
    and "map_of profile model_type = Some model_id"
    and "past_check env_a env_b model_type c0 c"
  shows "past_check env_a env_b model_type c0 (sched_step env_a env_b model_type c who)"
proof (cases who)
  case Caller_A
  show ?thesis
  proof (cases "pc_a c = After_miss")
    case True
    obtain r s' t where m: "load_model_miss env_a (mgr c) model_type = (r, s', t)"
      by (metis prod_cases3)
    have k: "model_size s' = model_size (mgr c) \<and> device s' = device (mgr c) \<and>
             dtype s' = dtype (mgr c)"
      using m by (rule load_model_miss_keeps)
    have "map_of MODEL_SIZES (model_size (mgr c)) = Some profile"
      using assms(1,3) by (simp add: past_check_def)
    then have n: "count_loads t = 1"
      using assms(2) m by (rule load_model_miss_defined_count)
    have "fst (load_model_miss env_a (mgr c) model_type) =
          fst (load_model_miss env_a (mgr c0) model_type)"
      using assms(3) by (intro load_model_miss_fst) (simp_all add: past_check_def)
    with m have r: "r = fst (load_model_miss env_a (mgr c0) model_type)"
      by simp
    show ?thesis
      using assms(3) True Caller_A m k n r
      by (simp add: past_check_def sched_step_def load_model_step_def count_loads_simps)
  next
    case False
    with assms(3) Caller_A show ?thesis
      by (auto simp: past_check_def sched_step_def load_model_step_def)
  qed
next
  case Caller_B
  show ?thesis
  proof (cases "pc_b c = After_miss")
    case True
    obtain r s' t where m: "load_model_miss env_b (mgr c) model_type = (r, s', t)"
      by (metis prod_cases3)
    have k: "model_size s' = model_size (mgr c) \<and> device s' = device (mgr c) \<and>
             dtype s' = dtype (mgr c)"
      using m by (rule load_model_miss_keeps)
    have "map_of MODEL_SIZES (model_size (mgr c)) = Some profile"
      using assms(1,3) by (simp add: past_check_def)
    then have n: "count_loads t = 1"
      using assms(2) m by (rule load_model_miss_defined_count)
    have "fst (load_model_miss env_b (mgr c) model_type) =
          fst (load_model_miss env_b (mgr c0) model_type)"
      using assms(3) by (intro load_model_miss_fst) (simp_all add: past_check_def)
    with m have r: "r = fst (load_model_miss env_b (mgr c0) model_type)"
      by simp
    show ?thesis
      using assms(3) True Caller_B m k n r
      by (simp add: past_check_def sched_step_def load_model_step_def count_loads_simps)
  next
    case False
    with assms(3) Caller_B show ?thesis
      by (auto simp: past_check_def sched_step_def load_model_step_def)
  qed
qed

lemma sched_step_leaves_after_miss:
  "pc_a (sched_step env_a env_b model_type c Caller_A) \<noteq> After_miss \<or> pc_a c \<noteq> After_miss"
  "pc_b (sched_step env_a env_b model_type c Caller_B) \<noteq> After_miss \<or> pc_b c \<noteq> After_miss"
  by (auto simp: sched_step_def load_model_step_def split: prod.splits)

lemma past_check_run_schedule:
  assumes "map_of MODEL_SIZES (model_size (mgr c0)) = Some profile"
    and "map_of profile model_type = Some model_id"
    and "past_check env_a env_b model_type c0 c"
  shows "past_check env_a env_b model_type c0 (run_schedule env_a env_b model_type c sch)"
  using assms(3)
proof (induction sch arbitrary: c)
  case Nil
  then show ?case by simp
next
  case (Cons who sch)
  from assms(1,2) Cons.prems
  have "past_check env_a env_b model_type c0 (sched_step env_a env_b model_type c who)"
    by (rule past_check_sched_step)
  then show ?case
    using Cons.IH by simp
qed

lemma returned_stays:
  "pc_a c \<noteq> After_miss \<Longrightarrow> pc_a c \<noteq> Before_check \<Longrightarrow>
     pc_a (sched_step env_a env_b model_type c who) = pc_a c"
  "pc_b c \<noteq> After_miss \<Longrightarrow> pc_b c \<noteq> Before_check \<Longrightarrow>
     pc_b (sched_step env_a env_b model_type c who) = pc_b c"
  by (cases who; cases "pc_a c"; cases "pc_b c";
      simp add: sched_step_def load_model_step_def split: prod.splits option.splits)+

lemma run_schedule_leaves_after_miss:
  assumes "map_of MODEL_SIZES (model_size (mgr c0)) = Some profile"
    and "map_of profile model_type = Some model_id"
  shows "past_check env_a env_b model_type c0 c \<Longrightarrow>
         pc_a c \<noteq> After_miss \<or> Caller_A \<in> set sch \<Longrightarrow>
         pc_a (run_schedule env_a env_b model_type c sch) \<noteq> After_miss"
    and "past_check env_a env_b model_type c0 c \<Longrightarrow>
         pc_b c \<noteq> After_miss \<or> Caller_B \<in> set sch \<Longrightarrow>
         pc_b (run_schedule env_a env_b model_type c sch) \<noteq> After_miss"
proof (induction sch arbitrary: c)
  case Nil
  { case 1 then show ?case by simp }
  { case 2 then show ?case by simp }
next
  case (Cons who sch)
  {
    case 1
    let ?c = "sched_step env_a env_b model_type c who"
    from assms 1(1) have p: "past_check env_a env_b model_type c0 ?c"
      by (rule past_check_sched_step)
    have "pc_a ?c \<noteq> After_miss \<or> Caller_A \<in> set sch"
    proof (cases "pc_a c = After_miss")
      case True
      with 1(2) have "who = Caller_A \<or> Caller_A \<in> set sch" by auto
      with True sched_step_leaves_after_miss(1) [of env_a env_b model_type c]
      show ?thesis by auto
    next
      case False
      with 1(1) have "pc_a c \<noteq> Before_check"
        by (auto simp: past_check_def)
      with False have "pc_a ?c = pc_a c" by (rule returned_stays(1))
      with False show ?thesis by simp
    qed
    with p show ?case
      using Cons.IH(1) by simp
  next
    case 2
    let ?c = "sched_step env_a env_b model_type c who"
    from assms 2(1) have p: "past_check env_a env_b model_type c0 ?c"
      by (rule past_check_sched_step)
    have "pc_b ?c \<noteq> After_miss \<or> Caller_B \<in> set sch"
    proof (cases "pc_b c = After_miss")
      case True
      with 2(2) have "who = Caller_B \<or> Caller_B \<in> set sch" by auto
      with True sched_step_leaves_after_miss(2) [of env_a env_b model_type c]
      show ?thesis by auto
    next
      case False
      with 2(1) have "pc_b c \<noteq> Before_check"
        by (auto simp: past_check_def)
      with False have "pc_b ?c = pc_b c" by (rule returned_stays(2))
      with False show ?thesis by simp
    qed
    with p show ?case
      using Cons.IH(2) by simp
  }
qed


lemma load_model_as_steps:
  assumes "load_model_step env s model_type force_reload Before_check = (pc1, s1, t1)"
    and "load_model_step env s1 model_type force_reload pc1 = (pc2, s2, t2)"
  shows "(pc2, s2, t1 @ t2) =
           (Returned (fst (load_model env s model_type force_reload)),
            fst (snd (load_model env s model_type force_reload)),
            snd (snd (load_model env s model_type force_reload)))"
  using assms
  by (auto simp: load_model_step_def load_model_def split: option.splits if_splits prod.splits)


text \<open>
  Claim C2, as amended. The module has no lock. When two callers of \<^verbatim>\<open>load_model\<close> for
  the same role, one the active size defines, have both passed the cache check with a miss,
  then however their remaining steps are scheduled, once both have run \<^verbatim>\<open>from_pretrained\<close>
  has been called twice, once for each, and each caller returns what its own load gave:
  its own handle or its own exception.
\<close>

theorem C2_both_callers_load:
  assumes "map_of MODEL_SIZES (model_size (mgr c)) = Some profile"
    and "map_of profile model_type = Some model_id"
    and "pc_a c = After_miss" and "pc_b c = After_miss"
    and "Caller_A \<in> set sch" and "Caller_B \<in> set sch"
  shows "count_loads (trace (run_schedule env_a env_b model_type c sch)) =
           count_loads (trace c) + 2 \<and>
         pc_a (run_schedule env_a env_b model_type c sch) =
           Returned (fst (load_model_miss env_a (mgr c) model_type)) \<and>
         pc_b (run_schedule env_a env_b model_type c sch) =
           Returned (fst (load_model_miss env_b (mgr c) model_type))"
proof -
  let ?c = "run_schedule env_a env_b model_type c sch"
  have start: "past_check env_a env_b model_type c c"
    using assms(3,4) by (simp add: past_check_def)
  with assms(1,2) have fin: "past_check env_a env_b model_type c ?c"
    by (rule past_check_run_schedule)
  have a: "pc_a ?c \<noteq> After_miss"
    using assms(1,2) start assms(5) by (intro run_schedule_leaves_after_miss(1)) simp_all
  have b: "pc_b ?c \<noteq> After_miss"
    using assms(1,2) start assms(6) by (intro run_schedule_leaves_after_miss(2)) simp_all
  from fin a b show ?thesis
    by (simp add: past_check_def)
qed


theorem C2_both_callers_load_witness:
  "count_loads (trace (run_schedule (cpu_env 1) (cpu_env 2) ''custom_voice''
      (run_schedule (cpu_env 1) (cpu_env 2) ''custom_voice''
         (start_calls (init_manager ''1.7B'' ''cpu'' ''float32'')) [Caller_A, Caller_B])
      [Caller_B, Caller_A])) = 2"
proof -
  let ?c = "run_schedule (cpu_env 1) (cpu_env 2) ''custom_voice''
         (start_calls (init_manager ''1.7B'' ''cpu'' ''float32'')) [Caller_A, Caller_B]"
  have c: "?c = \<lparr>mgr = init_manager ''1.7B'' ''cpu'' ''float32'', pc_a = After_miss,
                 pc_b = After_miss, trace = []\<rparr>"
    by (simp add: sched_step_def load_model_step_def start_calls_def init_manager_def)
  have 1: "map_of MODEL_SIZES (model_size (mgr ?c)) =
      Some [(''custom_voice'', ''Qwen/Qwen3-TTS-12Hz-1.7B-CustomVoice''),
            (''voice_design'', ''Qwen/Qwen3-TTS-12Hz-1.7B-VoiceDesign''),
            (''voice_clone'', ''Qwen/Qwen3-TTS-12Hz-1.7B-Base'')]"
    unfolding c by (simp add: MODEL_SIZES_def init_manager_def)
  have 2: "map_of [(''custom_voice'', ''Qwen/Qwen3-TTS-12Hz-1.7B-CustomVoice''),
            (''voice_design'', ''Qwen/Qwen3-TTS-12Hz-1.7B-VoiceDesign''),
            (''voice_clone'', ''Qwen/Qwen3-TTS-12Hz-1.7B-Base'')] ''custom_voice'' =
      Some ''Qwen/Qwen3-TTS-12Hz-1.7B-CustomVoice''"
    by simp
  have 3: "pc_a ?c = After_miss" and 4: "pc_b ?c = After_miss"
    unfolding c by simp_all
  have 5: "Caller_A \<in> set [Caller_B, Caller_A]" and 6: "Caller_B \<in> set [Caller_B, Caller_A]"
    by simp_all
  have t: "count_loads (trace ?c) = 0"
    unfolding c by (simp add: count_loads_def)
  from C2_both_callers_load [OF 1 2 3 4 5 6, of "cpu_env 1" "cpu_env 2"]
  have "count_loads (trace (run_schedule (cpu_env 1) (cpu_env 2) ''custom_voice'' ?c
          [Caller_B, Caller_A])) = count_loads (trace ?c) + 2"
    by blast
  then show ?thesis
    by (simp only: t)
qed

text \<open>
  The claim as stated asks for one load and one shared handle. With an empty cache, caller
  A checks, caller B checks, A loads and B loads: two loads, and A gets the object 1, B the
  object 2.
\<close>

theorem C2_two_loads_counterexample:
  "pc_a (run_schedule (cpu_env 1) (cpu_env 2) ''custom_voice''
           (start_calls (init_manager ''1.7B'' ''cpu'' ''float32''))
           [Caller_A, Caller_B]) = After_miss \<and>
   pc_b (run_schedule (cpu_env 1) (cpu_env 2) ''custom_voice''
           (start_calls (init_manager ''1.7B'' ''cpu'' ''float32''))
           [Caller_A, Caller_B]) = After_miss \<and>
   count_loads (trace (run_schedule (cpu_env 1) (cpu_env 2) ''custom_voice''
           (start_calls (init_manager ''1.7B'' ''cpu'' ''float32''))
           [Caller_A, Caller_B, Caller_A, Caller_B])) = 2 \<and>
   pc_a (run_schedule (cpu_env 1) (cpu_env 2) ''custom_voice''
           (start_calls (init_manager ''1.7B'' ''cpu'' ''float32''))
           [Caller_A, Caller_B, Caller_A, Caller_B]) = Returned (Inr 1) \<and>
   pc_b (run_schedule (cpu_env 1) (cpu_env 2) ''custom_voice''
           (start_calls (init_manager ''1.7B'' ''cpu'' ''float32''))
           [Caller_A, Caller_B, Caller_A, Caller_B]) = Returned (Inr 2)"
  by (simp add: sched_step_def load_model_step_def load_model_miss_def load_model_try_def
      cpu_optimize_def start_calls_def init_manager_def cpu_env_def MODEL_SIZES_def
      count_loads_def)


subsection \<open>Changing the size\<close>

text \<open>
  Claim C1, as amended. When the requested size is a key of \<^verbatim>\<open>MODEL_SIZES\<close> and differs
  from the active one, \<^verbatim>\<open>set_model_size\<close> runs \<^verbatim>\<open>clear_cache\<close> on the manager that still
  has the old size and then assigns the new size to what \<^verbatim>\<open>clear_cache\<close> leaves. The cache
  is then empty: every entry is evicted, that of the tokenizer among them.
\<close>

theorem C1_set_model_size_evicts_every_entry:
  assumes "map_of MODEL_SIZES msize = Some profile" and "msize \<noteq> model_size s"
  shows "set_model_size env s msize =
           (Inr (), (fst (clear_cache env s))\<lparr>model_size := msize\<rparr>,
            Log INFO ''Changing model size from {self.model_size} to {size}''
              [S (model_size s), S msize] # snd (clear_cache env s)) \<and>
         model_size (fst (clear_cache env s)) = model_size s \<and>
         models (fst (clear_cache env s)) = Map.empty \<and>
         models (fst (snd (set_model_size env s msize))) = Map.empty \<and>
         model_size (fst (snd (set_model_size env s msize))) = msize"
  using assms by (simp add: set_model_size_def clear_cache_def)

theorem C1_set_model_size_evicts_every_entry_witness:
  "models (fst (snd (set_model_size (cpu_env 1)
      (fst (snd (load_tokenizer (cpu_env 7) (init_manager ''1.7B'' ''cpu'' ''float32'') False)))
      ''0.6B''))) = Map.empty \<and>
   model_size (fst (snd (set_model_size (cpu_env 1)
      (fst (snd (load_tokenizer (cpu_env 7) (init_manager ''1.7B'' ''cpu'' ''float32'') False)))
      ''0.6B''))) = ''0.6B''"
proof -
  let ?s = "fst (snd (load_tokenizer (cpu_env 7) (init_manager ''1.7B'' ''cpu'' ''float32'') False))"
  have a: "map_of MODEL_SIZES ''0.6B'' =
      Some [(''custom_voice'', ''Qwen/Qwen3-TTS-12Hz-0.6B-CustomVoice''),
            (''voice_design'', ''Qwen/Qwen3-TTS-12Hz-0.6B-VoiceDesign''),
            (''voice_clone'', ''Qwen/Qwen3-TTS-12Hz-0.6B-Base'')]"
    by (simp add: MODEL_SIZES_def)
  have b: "''0.6B'' \<noteq> model_size ?s"
    by (simp add: load_tokenizer_def init_manager_def cpu_env_def)
  from C1_set_model_size_evicts_every_entry [OF a b] show ?thesis
    by simp
qed

text \<open>
  The claim as stated keeps the tokenizer's entry. A manager of size 1.7B that has loaded
  the tokenizer (the object 7) and is switched to 0.6B has lost it.
\<close>

theorem C1_tokenizer_evicted_counterexample:
  "models (fst (snd (load_tokenizer (cpu_env 7) (init_manager ''1.7B'' ''cpu'' ''float32'') False)))
     ''tokenizer'' = Some 7 \<and>
   models (fst (snd (set_model_size (cpu_env 1)
      (fst (snd (load_tokenizer (cpu_env 7) (init_manager ''1.7B'' ''cpu'' ''float32'') False)))
      ''0.6B''))) ''tokenizer'' = None"
  by (simp add: set_model_size_def clear_cache_def load_tokenizer_def init_manager_def
      cpu_env_def MODEL_SIZES_def)

subsection \<open>A role the active size does not define\<close>

text \<open>
  On a call that gets past the cache check, a model type that is no key of the active
  size's table raises the \<^verbatim>\<open>ValueError\<close> of line 104 and nothing is changed or logged.
\<close>

lemma load_model_undefined_role:
  assumes "map_of MODEL_SIZES (model_size s) = Some profile"
    and "map_of profile model_type = None"
    and "force_reload \<or> models s model_type = None"
  shows "load_model env s model_type force_reload =
           (Inl (ValueError (''Unknown model type: '' @ model_type @ ''. Available: '' @
                    py_repr_list (map fst profile))), s, [])"
  using assms
  by (auto simp: load_model_def load_model_miss_def split: option.splits)

text \<open>
  Claim C4, at the input where the code departs from it. The tokenizer is cached in the
  same dictionary under the key \<^verbatim>\<open>"tokenizer"\<close>, which no size defines as a model type.
  After \<^verbatim>\<open>load_tokenizer()\<close>, \<^verbatim>\<open>load_model("tokenizer")\<close> is answered by the cache check of
  line 99 before the check of line 103 is reached: it returns the tokenizer object (7
  here) and raises nothing. The cache is unchanged, as the claim says.
\<close>

theorem C4_cached_tokenizer_key_returned:
  "''tokenizer'' \<notin> defined_roles
      (fst (snd (load_tokenizer (cpu_env 7) (init_manager ''1.7B'' ''cpu'' ''float32'') False))) \<and>
   load_model (cpu_env 1)
      (fst (snd (load_tokenizer (cpu_env 7) (init_manager ''1.7B'' ''cpu'' ''float32'') False)))
      ''tokenizer'' False =
     (Inr 7,
      fst (snd (load_tokenizer (cpu_env 7) (init_manager ''1.7B'' ''cpu'' ''float32'') False)),
      [Log INFO ''Using cached {model_type} model'' [S ''tokenizer'']])"
  by (simp add: load_model_def load_tokenizer_def init_manager_def cpu_env_def
      defined_roles_def MODEL_SIZES_def)

subsection \<open>The invariant of the cache\<close>

lemma cache_inv_load_model:
  assumes "cache_inv s"
  shows "cache_inv (fst (snd (load_model env s model_type force_reload)))"
proof -
  obtain r s' t where c: "load_model env s model_type force_reload = (r, s', t)"
    by (metis prod_cases3)
  show ?thesis
  proof (cases r)
    case (Inl e)
    with c have "s' = s" by (simp add: load_model_result(2))
    with assms c show ?thesis by simp
  next
    case (Inr h)
    with c have "s' = s \<or>
        (s' = s\<lparr>models := (models s)(model_type \<mapsto> h)\<rparr> \<and> model_type \<in> defined_roles s)"
      by (simp add: load_model_result(4))
    with assms c show ?thesis
      by (auto simp: cache_inv_def split: if_splits)
  qed
qed

lemma cache_inv_load_tokenizer:
  assumes "cache_inv s"
  shows "cache_inv (fst (snd (load_tokenizer env s force_reload)))"
  using assms
  by (auto simp: load_tokenizer_def cache_inv_def
      split: option.splits sum.splits if_splits)

lemma cache_inv_set_model_size:
  assumes "cache_inv s"
  shows "cache_inv (fst (snd (set_model_size env s msize)))"
  using assms
  by (auto simp: set_model_size_def clear_cache_def cache_inv_def)

lemma cache_inv_unload_model:
  assumes "cache_inv s"
  shows "cache_inv (fst (unload_model s model_type))"
  using assms
  by (auto simp: unload_model_def cache_inv_def split: if_splits)

lemma cache_inv_clear_cache: "cache_inv (fst (clear_cache env s))"
  by (simp add: clear_cache_def cache_inv_def)

lemma cache_inv_apply_operation:
  assumes "cache_inv s"
  shows "cache_inv (apply_operation env s opn)"
  using assms
  by (cases opn)
     (simp_all add: cache_inv_load_model cache_inv_load_tokenizer cache_inv_set_model_size
        cache_inv_unload_model cache_inv_clear_cache)

lemma cache_inv_init_manager: "cache_inv (init_manager msize dev dt)"
  by (simp add: cache_inv_def init_manager_def)

text \<open>
  Claim C10. In every manager that \<^verbatim>\<open>load_model\<close>, \<^verbatim>\<open>load_tokenizer\<close>,
  \<^verbatim>\<open>set_model_size\<close>, \<^verbatim>\<open>unload_model\<close> and \<^verbatim>\<open>clear_cache\<close> reach from a fresh one,
  whatever the libraries answer, every key of the cache other than the tokenizer's is a
  model type that the active size defines.
\<close>

theorem C10_cached_roles_defined:
  assumes "reachable s"
  shows "cache_inv s"
  using assms
proof (induction rule: reachable.induct)
  case (fresh msize dev dt)
  show ?case by (rule cache_inv_init_manager)
next
  case (after s env opn)
  then show ?case by (simp add: cache_inv_apply_operation)
qed

theorem C10_cached_roles_defined_witness:
  "cache_inv
     (apply_operation (cpu_env 2)
        (apply_operation (cpu_env 1)
           (apply_operation (cpu_env 7) (init_manager ''1.7B'' ''cpu'' ''float32'')
              (Load_tokenizer False))
           (Load_model ''voice_clone'' False))
        (Set_model_size ''0.6B'')) \<and>
   dom (models
     (apply_operation (cpu_env 1)
        (apply_operation (cpu_env 7) (init_manager ''1.7B'' ''cpu'' ''float32'')
           (Load_tokenizer False))
        (Load_model ''voice_clone'' False))) = {''tokenizer'', ''voice_clone''}"
proof -
  have "reachable
     (apply_operation (cpu_env 2)
        (apply_operation (cpu_env 1)
           (apply_operation (cpu_env 7) (init_manager ''1.7B'' ''cpu'' ''float32'')
              (Load_tokenizer False))
           (Load_model ''voice_clone'' False))
        (Set_model_size ''0.6B''))"
    by (intro reachable.after reachable.fresh)
  then have "cache_inv
     (apply_operation (cpu_env 2)
        (apply_operation (cpu_env 1)
           (apply_operation (cpu_env 7) (init_manager ''1.7B'' ''cpu'' ''float32'')
              (Load_tokenizer False))
           (Load_model ''voice_clone'' False))
        (Set_model_size ''0.6B''))"
    by (rule C10_cached_roles_defined)
  moreover have "dom (models
     (apply_operation (cpu_env 1)
        (apply_operation (cpu_env 7) (init_manager ''1.7B'' ''cpu'' ''float32'')
           (Load_tokenizer False))
        (Load_model ''voice_clone'' False))) = {''tokenizer'', ''voice_clone''}"
    by (auto simp: load_model_def load_model_miss_def load_model_try_def cpu_optimize_def
        load_tokenizer_def init_manager_def cpu_env_def MODEL_SIZES_def split: if_splits)
  ultimately show ?thesis by simp
qed

section \<open>Properties of the audio functions\<close>

subsection \<open>The minimum duration\<close>

text \<open>
  Claim C9. For a positive sample rate, \<^verbatim>\<open>validate_audio_duration\<close> returns whether
  the number of frames over the sample rate is at least \<^verbatim>\<open>min_duration\<close> (and logs a
  warning exactly when it is not). With a minimum of 1 second the answer is \<^verbatim>\<open>False\<close>
  for audio of half a second and \<^verbatim>\<open>True\<close> for audio of exactly one second, at any rate.
  The quotient and the comparison are those of the real numbers.
\<close>

theorem C9_validate_audio_duration:
  assumes "0 < sample_rate"
  shows "validate_audio_duration audio_data sample_rate min_duration =
           (Inr (min_duration \<le> real (len audio_data) / real_of_int sample_rate),
            if min_duration \<le> real (len audio_data) / real_of_int sample_rate then []
            else [Log WARNING ''Audio duration {duration:.2f}s is less than {min_duration}s''
                    [R (real (len audio_data) / real_of_int sample_rate), R min_duration]]) \<and>
         (real (len audio_data) / real_of_int sample_rate = 1 / 2 \<longrightarrow>
            fst (validate_audio_duration audio_data sample_rate 1) = Inr False) \<and>
         (real (len audio_data) / real_of_int sample_rate = 1 \<longrightarrow>
            fst (validate_audio_duration audio_data sample_rate 1) = Inr True)"
  using assms by (simp add: validate_audio_duration_def Let_def)


theorem C9_validate_audio_duration_witness:
  "fst (validate_audio_duration (Arr1 (replicate 12000 0)) 24000 1) = Inr False \<and>
   fst (validate_audio_duration (Arr1 (replicate 24000 0)) 24000 1) = Inr True \<and>
   fst (validate_audio_duration (Arr1 (replicate 36000 0)) 24000 (3 / 2)) = Inr True"
proof -
  have p: "(0::int) < 24000" by simp
  have h: "real (len (Arr1 (replicate 12000 0))) / real_of_int 24000 = 1 / 2"
    by (simp add: len_def)
  have e: "real (len (Arr1 (replicate 24000 0))) / real_of_int 24000 = 1"
    by (simp add: len_def)
  have l: "(3 / 2 :: real) \<le> real (len (Arr1 (replicate 36000 0))) / real_of_int 24000"
    by (simp add: len_def)
  from C9_validate_audio_duration [OF p, of "Arr1 (replicate 12000 0)" 1] h
  have 1: "fst (validate_audio_duration (Arr1 (replicate 12000 0)) 24000 1) = Inr False"
    by blast
  from C9_validate_audio_duration [OF p, of "Arr1 (replicate 24000 0)" 1] e
  have 2: "fst (validate_audio_duration (Arr1 (replicate 24000 0)) 24000 1) = Inr True"
    by blast
  from C9_validate_audio_duration [OF p, of "Arr1 (replicate 36000 0)" "3 / 2"] l
  have 3: "fst (validate_audio_duration (Arr1 (replicate 36000 0)) 24000 (3 / 2)) = Inr True"
    by simp
  from 1 2 3 show ?thesis by blast
qed


subsection \<open>Lossy formats without pydub\<close>

lemma lower_wav: "lower ''wav'' = ''wav''"
  by (simp add: lower_def lower_char_def)

lemma save_audio_wav:
  "save_audio env audio_data sample_rate ''wav'' output_path =
     log_and_reraise ''Failed to save audio: {str(e)}''
       (save_wav env audio_data sample_rate output_path)"
  by (subst save_audio.simps) (simp add: lower_wav SUPPORTED_FORMATS_def)

lemma save_audio_fallback:
  assumes "lower format = ''mp3'' \<or> lower format = ''ogg''"
    and "import_pydub env = Some e" and "isinstance e ''ImportError''"
  shows "save_audio env audio_data sample_rate format output_path =
     log_and_reraise ''Failed to save audio: {str(e)}''
       (case save_audio env audio_data sample_rate ''wav'' output_path of
          (r, t) \<Rightarrow> (r, Log WARNING ''pydub not available, returning WAV instead'' [] # t))"
  using assms
  by (subst save_audio.simps) (auto simp: SUPPORTED_FORMATS_def)

lemma fst_log_and_reraise [simp]: "fst (log_and_reraise msg rt) = fst rt"
  by (cases rt) (auto simp: log_and_reraise_def split: sum.splits)

lemma log_and_reraise_Inr: "fst rt = Inr v \<Longrightarrow> log_and_reraise msg rt = rt"
  by (cases rt) (auto simp: log_and_reraise_def)

lemma hd_log_and_reraise: "snd rt \<noteq> [] \<Longrightarrow> hd (snd (log_and_reraise msg rt)) = hd (snd rt)"
  by (cases rt) (auto simp: log_and_reraise_def split: sum.splits)


text \<open>
  Claim C8. For every waveform, sample rate and destination, and every format that
  lower-cases to mp3 or ogg: when the import of \<^verbatim>\<open>pydub\<close> raises an \<^verbatim>\<open>ImportError\<close>,
  \<^verbatim>\<open>save_audio\<close> first logs the warning and then gives what \<^verbatim>\<open>save_audio\<close> gives for the
  format wav with the same destination, which is the outcome of the wav branch: the
  path when a destination is given and the write succeeds, the encoded bytes when none is
  given. The missing import itself never makes the call raise; only a failure of the wav
  write does.
\<close>

theorem C8_lossy_falls_back_to_wav:
  assumes "lower format = ''mp3'' \<or> lower format = ''ogg''"
    and "import_pydub env = Some e" and "isinstance e ''ImportError''"
  shows "fst (save_audio env audio_data sample_rate format output_path) =
           fst (save_audio env audio_data sample_rate ''wav'' output_path) \<and>
         fst (save_audio env audio_data sample_rate format output_path) =
           fst (save_wav env audio_data sample_rate output_path) \<and>
         hd (snd (save_audio env audio_data sample_rate format output_path)) =
           Log WARNING ''pydub not available, returning WAV instead'' [] \<and>
         (\<forall>out. fst (save_audio env audio_data sample_rate ''wav'' output_path) = Inr out \<longrightarrow>
            save_audio env audio_data sample_rate format output_path =
              (Inr out, Log WARNING ''pydub not available, returning WAV instead'' [] #
                 snd (save_audio env audio_data sample_rate ''wav'' output_path))) \<and>
         (truthy_path output_path \<longrightarrow>
            sf_write_path env (the output_path) audio_data sample_rate = None \<longrightarrow>
            fst (save_audio env audio_data sample_rate format output_path) =
              Inr (Out_path (the output_path))) \<and>
         (\<not> truthy_path output_path \<longrightarrow>
            (\<forall>b. sf_write_buffer env audio_data sample_rate = Inr b \<longrightarrow>
               fst (save_audio env audio_data sample_rate format output_path) =
                 Inr (Out_bytes b)))"
proof -
  let ?w = "save_audio env audio_data sample_rate ''wav'' output_path"
  let ?f = "save_audio env audio_data sample_rate format output_path"
  have f: "?f = log_and_reraise ''Failed to save audio: {str(e)}''
       (case ?w of (r, t) \<Rightarrow>
          (r, Log WARNING ''pydub not available, returning WAV instead'' [] # t))"
    using assms by (rule save_audio_fallback)
  have 1: "fst ?f = fst ?w"
    unfolding f by (simp split: prod.splits)
  have 2: "fst ?w = fst (save_wav env audio_data sample_rate output_path)"
    by (simp add: save_audio_wav)
  have 3: "hd (snd ?f) = Log WARNING ''pydub not available, returning WAV instead'' []"
    unfolding f by (subst hd_log_and_reraise) (simp_all split: prod.splits)
  have 4: "?f = (Inr out, Log WARNING ''pydub not available, returning WAV instead'' [] # snd ?w)"
    if "fst ?w = Inr out" for out
    unfolding f using that by (cases ?w) (simp add: log_and_reraise_def)
  have 5: "fst (save_wav env audio_data sample_rate output_path) = Inr (Out_path (the output_path))"
    if "truthy_path output_path" "sf_write_path env (the output_path) audio_data sample_rate = None"
    using that by (simp add: save_wav_def)
  have 6: "fst (save_wav env audio_data sample_rate output_path) = Inr (Out_bytes b)"
    if "\<not> truthy_path output_path" "sf_write_buffer env audio_data sample_rate = Inr b" for b
    using that by (simp add: save_wav_def)
  from 1 2 3 4 5 6 show ?thesis
    by simp
qed

theorem C8_lossy_falls_back_to_wav_witness:
  "fst (save_audio (bare_env (Arr1 []) 24000 [82, 73, 70, 70]) (Arr1 [0, 1 / 2]) 24000
          ''MP3'' None) = Inr (Out_bytes [82, 73, 70, 70]) \<and>
   fst (save_audio (bare_env (Arr1 []) 24000 [82, 73, 70, 70]) (Arr1 [0, 1 / 2]) 24000
          ''ogg'' (Some ''out.wav'')) = Inr (Out_path ''out.wav'')"
proof -
  let ?env = "bare_env (Arr1 []) 24000 [82, 73, 70, 70]"
  let ?e = "ModuleNotFoundError ''No module named pydub''"
  have up: "lower ''MP3'' = ''mp3'' \<or> lower ''MP3'' = ''ogg''"
    by code_simp
  have lo: "lower ''ogg'' = ''mp3'' \<or> lower ''ogg'' = ''ogg''"
    by (simp add: lower_def lower_char_def)
  have imp: "import_pydub ?env = Some ?e"
    by (simp add: bare_env_def)
  have cls: "isinstance ?e ''ImportError''"
    by (simp add: isinstance_def ModuleNotFoundError_def)
  have nb: "\<not> truthy_path None" and tp: "truthy_path (Some ''out.wav'')"
    by (simp_all add: truthy_path_def)
  have wb: "sf_write_buffer ?env (Arr1 [0, 1 / 2]) 24000 = Inr [82, 73, 70, 70]"
    by (simp add: bare_env_def)
  have wp: "sf_write_path ?env (the (Some ''out.wav'')) (Arr1 [0, 1 / 2]) 24000 = None"
    by (simp add: bare_env_def)
  from C8_lossy_falls_back_to_wav [OF up imp cls, of "Arr1 [0, 1 / 2]" 24000 None] nb wb
  have 1: "fst (save_audio ?env (Arr1 [0, 1 / 2]) 24000 ''MP3'' None) =
             Inr (Out_bytes [82, 73, 70, 70])"
    by blast
  from C8_lossy_falls_back_to_wav
         [OF lo imp cls, of "Arr1 [0, 1 / 2]" 24000 "Some ''out.wav''"] tp wp
  have "fst (save_audio ?env (Arr1 [0, 1 / 2]) 24000 ''ogg'' (Some ''out.wav'')) =
             Inr (Out_path (the (Some ''out.wav'')))"
    by blast
  then have 2: "fst (save_audio ?env (Arr1 [0, 1 / 2]) 24000 ''ogg'' (Some ''out.wav'')) =
             Inr (Out_path ''out.wav'')"
    by (simp only: option.sel)
  from 1 2 show ?thesis by blast
qed


subsection \<open>Multi-channel input\<close>

lemma mean_axis1_uniform:
  assumes "\<forall>row \<in> set rows. length row = c"
  shows "mean_axis1 rows = map (\<lambda>row. sum_list row / real c) rows"
  using assms by (simp add: mean_axis1_def)

lemma mean_axis1_frames:
  assumes "\<forall>row \<in> set rows. length row = c" and "0 < c"
  shows "length (mean_axis1 rows) = length rows \<and>
         (\<forall>i < length rows. mean_axis1 rows ! i * real c = sum_list (rows ! i))"
  using assms by (simp add: mean_axis1_def)

lemma load_audio_ndarray:
  "load_audio env (Ndarray (Arr2 rows)) (Some sr) =
     (Inr (Arr1 (mean_axis1 rows), sr), [Log INFO ''Converted stereo audio to mono'' []])"
  by (simp add: load_audio_def acquire_def ensure_mono_def resample_if_needed_def
      log_and_reraise_def)

lemma load_audio_after_acquire:
  assumes "acquire env audio_source sample_rate = (Inr (Arr2 rows, r), t)"
  shows "fst (load_audio env audio_source sample_rate) =
           (case fst (resample_if_needed env (mean_axis1 rows) r sample_rate) of
              Inl e \<Rightarrow> Inl e
            | Inr (ys, sr) \<Rightarrow> Inr (Arr1 ys, sr))"
  using assms
  by (simp add: load_audio_def ensure_mono_def split: prod.splits sum.splits)

lemma load_audio_mono_source:
  assumes "acquire env audio_source sample_rate = (Inr (Arr1 xs, r), t)"
  shows "fst (load_audio env audio_source sample_rate) =
           (case fst (resample_if_needed env xs r sample_rate) of
              Inl e \<Rightarrow> Inl e
            | Inr (ys, sr) \<Rightarrow> Inr (Arr1 ys, sr))"
  using assms
  by (simp add: load_audio_def ensure_mono_def split: prod.splits sum.splits)

lemma resample_not_needed:
  assumes "sample_rate = None \<or> sample_rate = Some 0 \<or> sample_rate = Some r \<or>
           (\<exists>e. import_librosa env = Some e \<and> isinstance e ''ImportError'')"
  shows "fst (resample_if_needed env xs r sample_rate) = Inr (xs, r)"
  using assms
  by (auto simp: resample_if_needed_def split: option.splits)

lemma resample_if_needed_env:
  "resample_if_needed (env\<lparr>sf_read_buffer := f\<rparr>) xs r sample_rate =
   resample_if_needed env xs r sample_rate"
  "resample_if_needed (env\<lparr>sf_read_path := g\<rparr>) xs r sample_rate =
   resample_if_needed env xs r sample_rate"
  by (simp_all add: resample_if_needed_def split: option.splits sum.splits)


text \<open>
  Claim C7. For an array of \<open>c\<close> channels (\<open>c\<close> positive, every frame of \<open>c\<close> samples):
  given as an array, \<^verbatim>\<open>load_audio\<close> returns the one-channel array whose sample for each
  frame is the sum of the frame's channels over \<open>c\<close>, at the declared rate; decoded from
  bytes or from a file, the result is that of decoding the channel average in its place,
  and it is the channel average itself whenever no resampling takes place (no target
  rate, a target of 0 or the decoded rate, or \<^verbatim>\<open>librosa\<close> not importable). The array
  [[1, 3], [1, -1]] gives [2, 0]. Sums and quotients are those of the real numbers.
\<close>

theorem C7_load_audio_averages_channels:
  assumes "\<forall>row \<in> set rows. length row = c" and "0 < c"
  shows "load_audio env (Ndarray (Arr2 rows)) (Some sr) =
           (Inr (Arr1 (map (\<lambda>row. sum_list row / real c) rows), sr),
            [Log INFO ''Converted stereo audio to mono'' []]) \<and>
         (\<forall>i < length rows.
            map (\<lambda>row. sum_list row / real c) rows ! i * real c = sum_list (rows ! i)) \<and>
         (\<forall>b r. sf_read_buffer env b = Inr (Arr2 rows, r) \<longrightarrow>
            fst (load_audio env (Bytes b) target) =
              fst (load_audio
                     (env\<lparr>sf_read_buffer :=
                            \<lambda>b. Inr (Arr1 (map (\<lambda>row. sum_list row / real c) rows), r)\<rparr>)
                     (Bytes b) target) \<and>
            (target = None \<or> target = Some 0 \<or> target = Some r \<or>
             (\<exists>e. import_librosa env = Some e \<and> isinstance e ''ImportError'') \<longrightarrow>
             fst (load_audio env (Bytes b) target) =
               Inr (Arr1 (map (\<lambda>row. sum_list row / real c) rows), r))) \<and>
         (\<forall>p r. path_exists env p \<longrightarrow> sf_read_path env p = Inr (Arr2 rows, r) \<longrightarrow>
            fst (load_audio env (Path_str p) target) =
              fst (load_audio
                     (env\<lparr>sf_read_path :=
                            \<lambda>p. Inr (Arr1 (map (\<lambda>row. sum_list row / real c) rows), r)\<rparr>)
                     (Path_str p) target) \<and>
            (target = None \<or> target = Some 0 \<or> target = Some r \<or>
             (\<exists>e. import_librosa env = Some e \<and> isinstance e ''ImportError'') \<longrightarrow>
             fst (load_audio env (Path_str p) target) =
               Inr (Arr1 (map (\<lambda>row. sum_list row / real c) rows), r))) \<and>
         fst (load_audio env (Ndarray (Arr2 [[1, 3], [1, - 1]])) (Some sr)) =
           Inr (Arr1 [2, 0], sr)"
proof -
  let ?avg = "map (\<lambda>row. sum_list row / real c) rows"
  have m: "mean_axis1 rows = ?avg"
    using assms(1) by (rule mean_axis1_uniform)
  have 1: "load_audio env (Ndarray (Arr2 rows)) (Some sr) =
           (Inr (Arr1 ?avg, sr), [Log INFO ''Converted stereo audio to mono'' []])"
    by (simp add: load_audio_ndarray m)
  have 2: "\<forall>i < length rows. ?avg ! i * real c = sum_list (rows ! i)"
    using mean_axis1_frames [OF assms] by (simp add: m)
  have 3: "fst (load_audio env (Bytes b) target) =
             fst (load_audio (env\<lparr>sf_read_buffer := \<lambda>b. Inr (Arr1 ?avg, r)\<rparr>) (Bytes b) target)"
    if "sf_read_buffer env b = Inr (Arr2 rows, r)" for b r
  proof -
    have "acquire env (Bytes b) target = (Inr (Arr2 rows, r), [Sf_read_buffer b])"
      using that by (simp add: acquire_def)
    then have l: "fst (load_audio env (Bytes b) target) =
        (case fst (resample_if_needed env ?avg r target) of
           Inl e \<Rightarrow> Inl e | Inr (ys, sr) \<Rightarrow> Inr (Arr1 ys, sr))"
      by (simp add: load_audio_after_acquire m)
    have "acquire (env\<lparr>sf_read_buffer := \<lambda>b. Inr (Arr1 ?avg, r)\<rparr>) (Bytes b) target =
        (Inr (Arr1 ?avg, r), [Sf_read_buffer b])"
      by (simp add: acquire_def)
    then have "fst (load_audio (env\<lparr>sf_read_buffer := \<lambda>b. Inr (Arr1 ?avg, r)\<rparr>) (Bytes b) target) =
        (case fst (resample_if_needed env ?avg r target) of
           Inl e \<Rightarrow> Inl e | Inr (ys, sr) \<Rightarrow> Inr (Arr1 ys, sr))"
      by (simp add: load_audio_mono_source resample_if_needed_env)
    with l show ?thesis by simp
  qed
  have 4: "fst (load_audio env (Bytes b) target) = Inr (Arr1 ?avg, r)"
    if "sf_read_buffer env b = Inr (Arr2 rows, r)"
      and "target = None \<or> target = Some 0 \<or> target = Some r \<or>
           (\<exists>e. import_librosa env = Some e \<and> isinstance e ''ImportError'')" for b r
  proof -
    have "acquire env (Bytes b) target = (Inr (Arr2 rows, r), [Sf_read_buffer b])"
      using that(1) by (simp add: acquire_def)
    then show ?thesis
      by (simp add: load_audio_after_acquire m resample_not_needed [OF that(2)])
  qed
  have 5: "fst (load_audio env (Path_str p) target) =
             fst (load_audio (env\<lparr>sf_read_path := \<lambda>p. Inr (Arr1 ?avg, r)\<rparr>) (Path_str p) target)"
    if "path_exists env p" "sf_read_path env p = Inr (Arr2 rows, r)" for p r
  proof -
    have "acquire env (Path_str p) target = (Inr (Arr2 rows, r), [Sf_read_path p])"
      using that by (simp add: acquire_def)
    then have l: "fst (load_audio env (Path_str p) target) =
        (case fst (resample_if_needed env ?avg r target) of
           Inl e \<Rightarrow> Inl e | Inr (ys, sr) \<Rightarrow> Inr (Arr1 ys, sr))"
      by (simp add: load_audio_after_acquire m)
    have "acquire (env\<lparr>sf_read_path := \<lambda>p. Inr (Arr1 ?avg, r)\<rparr>) (Path_str p) target =
        (Inr (Arr1 ?avg, r), [Sf_read_path p])"
      using that(1) by (simp add: acquire_def)
    then have "fst (load_audio (env\<lparr>sf_read_path := \<lambda>p. Inr (Arr1 ?avg, r)\<rparr>) (Path_str p) target) =
        (case fst (resample_if_needed env ?avg r target) of
           Inl e \<Rightarrow> Inl e | Inr (ys, sr) \<Rightarrow> Inr (Arr1 ys, sr))"
      by (simp add: load_audio_mono_source resample_if_needed_env)
    with l show ?thesis by simp
  qed
  have 6: "fst (load_audio env (Path_str p) target) = Inr (Arr1 ?avg, r)"
    if "path_exists env p" "sf_read_path env p = Inr (Arr2 rows, r)"
      and "target = None \<or> target = Some 0 \<or> target = Some r \<or>
           (\<exists>e. import_librosa env = Some e \<and> isinstance e ''ImportError'')" for p r
  proof -
    have "acquire env (Path_str p) target = (Inr (Arr2 rows, r), [Sf_read_path p])"
      using that(1,2) by (simp add: acquire_def)
    then show ?thesis
      by (simp add: load_audio_after_acquire m resample_not_needed [OF that(3)])
  qed
  have 7: "fst (load_audio env (Ndarray (Arr2 [[1, 3], [1, - 1]])) (Some sr)) = Inr (Arr1 [2, 0], sr)"
    by (simp add: load_audio_ndarray mean_axis1_def)
  from 1 2 3 4 5 6 7 show ?thesis
    by blast
qed

theorem C7_load_audio_averages_channels_witness:
  "fst (load_audio (bare_env (Arr2 [[1 / 2, 1 / 4], [0, - 1]]) 48000 []) (Bytes [1, 2, 3])
          (Some 24000)) = Inr (Arr1 [3 / 8, - 1 / 2], 48000) \<and>
   load_audio (bare_env (Arr1 []) 48000 []) (Ndarray (Arr2 [[1 / 2, 1 / 4], [0, - 1]]))
          (Some 16000) =
     (Inr (Arr1 [3 / 8, - 1 / 2], 16000), [Log INFO ''Converted stereo audio to mono'' []])"
proof -
  let ?rows = "[[1 / 2, 1 / 4], [0, - 1 :: real]]"
  let ?env = "bare_env (Arr2 ?rows) 48000 []"
  have a: "\<forall>row \<in> set ?rows. length row = 2" by simp
  have b: "0 < (2::nat)" by simp
  have avg: "map (\<lambda>row. sum_list row / real 2) ?rows = [3 / 8, - 1 / 2]"
    by simp
  have rd: "sf_read_buffer ?env [1, 2, 3] = Inr (Arr2 ?rows, 48000)"
    by (simp add: bare_env_def)
  have lib: "\<exists>e. import_librosa ?env = Some e \<and> isinstance e ''ImportError''"
    by (simp add: bare_env_def isinstance_def ModuleNotFoundError_def)
  from C7_load_audio_averages_channels
         [OF a b, where env = ?env and target = "Some 24000"] rd lib
  have "fst (load_audio ?env (Bytes [1, 2, 3]) (Some 24000)) =
          Inr (Arr1 (map (\<lambda>row. sum_list row / real 2) ?rows), 48000)"
    by blast
  then have 1: "fst (load_audio ?env (Bytes [1, 2, 3]) (Some 24000)) =
          Inr (Arr1 [3 / 8, - 1 / 2], 48000)"
    by (simp only: avg)
  from C7_load_audio_averages_channels
         [OF a b, where env = "bare_env (Arr1 []) 48000 []" and sr = 16000]
  have "load_audio (bare_env (Arr1 []) 48000 []) (Ndarray (Arr2 ?rows)) (Some 16000) =
          (Inr (Arr1 (map (\<lambda>row. sum_list row / real 2) ?rows), 16000),
           [Log INFO ''Converted stereo audio to mono'' []])"
    by blast
  then have 2: "load_audio (bare_env (Arr1 []) 48000 []) (Ndarray (Arr2 ?rows)) (Some 16000) =
          (Inr (Arr1 [3 / 8, - 1 / 2], 16000),
           [Log INFO ''Converted stereo audio to mono'' []])"
    by (simp only: avg)
  from 1 2 show ?thesis by blast
qed

subsection \<open>The round trip through wav\<close>

lemma quantise16_range: "- 32768 \<le> quantise16 x \<and> quantise16 x \<le> 32767"
  by (simp add: quantise16_def)

lemma two_bytes: "k mod 256 + 256 * (k div 256 mod 256) = k mod 65536" for k :: int
  using zmod_zmult2_eq [of 256 k 256] by simp

lemma four_bytes:
  fixes k :: int
  assumes "0 \<le> k" and "k < 4294967296"
  shows "k mod 256 + 256 * (k div 256 mod 256 + 256 * (k div 256 div 256 mod 256 +
           256 * (k div 256 div 256 div 256 mod 256))) = k"
proof -
  define a1 where "a1 = k div 256"
  define a2 where "a2 = a1 div 256"
  define a3 where "a3 = a2 div 256"
  have b1: "a1 < 16777216" and p1: "0 \<le> a1"
    using assms by (simp_all add: a1_def)
  have b2: "a2 < 65536" and p2: "0 \<le> a2"
    using b1 p1 by (simp_all add: a2_def)
  have b3: "a3 < 256" and p3: "0 \<le> a3"
    using b2 p2 by (simp_all add: a3_def)
  have e3: "a3 mod 256 = a3"
    using b3 p3 by simp
  have e2: "a2 mod 256 + 256 * a3 = a2"
    unfolding a3_def by (rule mod_mult_div_eq)
  have e1: "a1 mod 256 + 256 * a2 = a1"
    unfolding a2_def by (rule mod_mult_div_eq)
  have e0: "k mod 256 + 256 * a1 = k"
    unfolding a1_def by (rule mod_mult_div_eq)
  have "k mod 256 + 256 * (a1 mod 256 + 256 * (a2 mod 256 + 256 * (a3 mod 256))) = k"
    by (simp only: e3 e2 e1 e0)
  then show ?thesis
    by (simp only: a1_def a2_def a3_def)
qed

lemma signed16:
  fixes k :: int
  assumes "- 32768 \<le> k" and "k \<le> 32767"
  shows "(if 32768 \<le> k mod 65536 then k mod 65536 - 65536 else k mod 65536) = k"
proof (cases "0 \<le> k")
  case True
  with assms have "k mod 65536 = k" by simp
  with assms show ?thesis by simp
next
  case False
  with assms have "(k + 65536) mod 65536 = k + 65536"
    by (intro mod_pos_pos_trivial) simp_all
  then have "k mod 65536 = k + 65536" by simp
  with False assms show ?thesis by simp
qed

lemma decode_le_bytes2:
  assumes "- 32768 \<le> k" and "k \<le> 32767"
  shows "decode_pcm16 (le_bytes2 k @ rest) = real_of_int k / 32768 # decode_pcm16 rest"
proof -
  have nn: "0 \<le> k mod 256" "0 \<le> k div 256 mod 256"
    by simp_all
  have "decode_pcm16 (le_bytes2 k @ rest) =
      real_of_int
        (if 32768 \<le> k mod 256 + 256 * (k div 256 mod 256)
         then k mod 256 + 256 * (k div 256 mod 256) - 65536
         else k mod 256 + 256 * (k div 256 mod 256)) / 32768 # decode_pcm16 rest"
    using nn by (simp add: le_bytes2_def)
  also have "\<dots> = real_of_int k / 32768 # decode_pcm16 rest"
    by (simp only: two_bytes signed16 [OF assms])
  finally show ?thesis .
qed

lemma decode_encode_pcm16:
  "decode_pcm16 (concat (map (\<lambda>x. le_bytes2 (quantise16 x)) xs)) = map pcm16 xs"
proof (induction xs)
  case Nil
  show ?case by simp
next
  case (Cons x xs)
  from quantise16_range [of x]
  have "decode_pcm16 (le_bytes2 (quantise16 x) @
          concat (map (\<lambda>x. le_bytes2 (quantise16 x)) xs)) =
        real_of_int (quantise16 x) / 32768 #
          decode_pcm16 (concat (map (\<lambda>x. le_bytes2 (quantise16 x)) xs))"
    by (intro decode_le_bytes2) simp_all
  with Cons.IH show ?case
    by (simp add: pcm16_def)
qed

lemma pcm16_read_write:
  assumes "0 \<le> sr" and "sr < 4294967296"
  shows "pcm16_read (le_bytes4 sr @ concat (map (\<lambda>x. le_bytes2 (quantise16 x)) xs)) =
           Inr (Arr1 (map pcm16 xs), sr)"
proof -
  have nn: "0 \<le> sr mod 256" "0 \<le> sr div 256 mod 256" "0 \<le> sr div 256 div 256 mod 256"
    "0 \<le> sr div 256 div 256 div 256 mod 256"
    by simp_all
  have "pcm16_read (le_bytes4 sr @ concat (map (\<lambda>x. le_bytes2 (quantise16 x)) xs)) =
      Inr (Arr1 (decode_pcm16 (concat (map (\<lambda>x. le_bytes2 (quantise16 x)) xs))),
           sr mod 256 + 256 * (sr div 256 mod 256 + 256 * (sr div 256 div 256 mod 256 +
             256 * (sr div 256 div 256 div 256 mod 256))))"
    using nn by (simp add: pcm16_read_def le_bytes4_def)
  then show ?thesis
    by (simp only: four_bytes [OF assms] decode_encode_pcm16)
qed

lemma pcm16_on_grid:
  assumes "- 32768 \<le> k" and "k \<le> 32767"
  shows "pcm16 (real_of_int k / 32768) = real_of_int k / 32768"
  using assms by (simp add: pcm16_def quantise16_def)

lemma save_audio_wav_bytes:
  assumes "sf_write_buffer env audio_data sample_rate = Inr b"
  shows "save_audio env audio_data sample_rate ''wav'' None =
           (Inr (Out_bytes b), [Sf_write_buffer audio_data sample_rate])"
  using assms
  by (simp add: save_audio_wav save_wav_def truthy_path_def log_and_reraise_def)

lemma load_audio_bytes_mono:
  assumes "sf_read_buffer env b = Inr (Arr1 ys, r)"
  shows "load_audio env (Bytes b) None = (Inr (Arr1 ys, r), [Sf_read_buffer b])"
  using assms
  by (simp add: load_audio_def acquire_def ensure_mono_def resample_if_needed_def
      log_and_reraise_def)

lemma pcm16_env_answers:
  "sf_write_buffer pcm16_env = pcm16_write" "sf_read_buffer pcm16_env = pcm16_read"
  by (simp_all add: pcm16_env_def)

lemma map_pcm16_on_grid:
  assumes "\<forall>x \<in> set xs. \<exists>k. - 32768 \<le> k \<and> k \<le> 32767 \<and> x = real_of_int k / 32768"
  shows "map pcm16 xs = xs"
proof -
  have "pcm16 x = x" if "x \<in> set xs" for x
  proof -
    from assms that obtain k where "- 32768 \<le> k" "k \<le> 32767" "x = real_of_int k / 32768"
      by blast
    then show ?thesis
      by (simp only: pcm16_on_grid)
  qed
  then show ?thesis
    by (simp add: map_idI)
qed


text \<open>
  Claim C6, as amended. For a one-channel waveform, encoding to wav in memory hands the
  samples and the rate unchanged to the codec's writer and returns its bytes; decoding
  those bytes with no target rate returns unchanged the samples and the rate that the
  codec's reader gives. So the round trip is the codec's own. With the 16-bit PCM codec,
  for a rate below \<open>2^32\<close>, the decoded buffer has the same number of samples and the same
  rate, each sample is the 16-bit quantisation of the original, and the samples are equal
  to the originals exactly when these are multiples of 1/32768 within the 16-bit range.
\<close>

theorem C6_wav_round_trip_is_the_codec:
  "(\<forall>b ys r. sf_write_buffer env (Arr1 xs) sr = Inr b \<longrightarrow>
      sf_read_buffer env b = Inr (Arr1 ys, r) \<longrightarrow>
      save_audio env (Arr1 xs) sr ''wav'' None =
        (Inr (Out_bytes b), [Sf_write_buffer (Arr1 xs) sr]) \<and>
      load_audio env (Bytes b) None = (Inr (Arr1 ys, r), [Sf_read_buffer b])) \<and>
   (0 \<le> sr \<and> sr < 4294967296 \<longrightarrow>
      fst (save_audio pcm16_env (Arr1 xs) sr ''wav'' None) =
        Inr (Out_bytes (le_bytes4 sr @ concat (map (\<lambda>x. le_bytes2 (quantise16 x)) xs))) \<and>
      fst (load_audio pcm16_env
             (Bytes (le_bytes4 sr @ concat (map (\<lambda>x. le_bytes2 (quantise16 x)) xs))) None) =
        Inr (Arr1 (map pcm16 xs), sr) \<and>
      length (map pcm16 xs) = length xs \<and>
      ((\<forall>x \<in> set xs. \<exists>k. - 32768 \<le> k \<and> k \<le> 32767 \<and> x = real_of_int k / 32768) \<longrightarrow>
         map pcm16 xs = xs))"
proof -
  let ?b = "le_bytes4 sr @ concat (map (\<lambda>x. le_bytes2 (quantise16 x)) xs)"
  have 1: "save_audio env (Arr1 xs) sr ''wav'' None =
        (Inr (Out_bytes b), [Sf_write_buffer (Arr1 xs) sr]) \<and>
      load_audio env (Bytes b) None = (Inr (Arr1 ys, r), [Sf_read_buffer b])"
    if "sf_write_buffer env (Arr1 xs) sr = Inr b" "sf_read_buffer env b = Inr (Arr1 ys, r)"
    for b ys r
    using that by (simp add: save_audio_wav_bytes load_audio_bytes_mono)
  have w: "sf_write_buffer pcm16_env (Arr1 xs) sr = Inr ?b"
    by (simp add: pcm16_env_answers pcm16_write_def)
  have 2: "fst (save_audio pcm16_env (Arr1 xs) sr ''wav'' None) = Inr (Out_bytes ?b)"
    by (simp add: save_audio_wav_bytes [OF w])
  have 3: "fst (load_audio pcm16_env (Bytes ?b) None) = Inr (Arr1 (map pcm16 xs), sr)"
    if "0 \<le> sr" "sr < 4294967296"
  proof -
    have "sf_read_buffer pcm16_env ?b = Inr (Arr1 (map pcm16 xs), sr)"
      by (simp only: pcm16_env_answers pcm16_read_write [OF that])
    then show ?thesis
      by (simp add: load_audio_bytes_mono)
  qed
  from 1 2 3 map_pcm16_on_grid [of xs] show ?thesis
    by simp
qed


theorem C6_wav_round_trip_is_the_codec_witness:
  "fst (load_audio pcm16_env
          (Bytes (le_bytes4 24000 @ concat (map (\<lambda>x. le_bytes2 (quantise16 x)) [1 / 2, - 1 / 4])))
          None) = Inr (Arr1 [1 / 2, - 1 / 4], 24000)"
proof -
  have r: "(0::int) \<le> 24000 \<and> (24000::int) < 4294967296"
    by simp
  have g: "\<forall>x \<in> set [1 / 2, - 1 / 4 :: real].
      \<exists>k. - 32768 \<le> k \<and> k \<le> 32767 \<and> x = real_of_int k / 32768"
  proof -
    have "- 32768 \<le> (16384::int) \<and> (16384::int) \<le> 32767 \<and>
          (1 / 2 :: real) = real_of_int 16384 / 32768"
      by simp
    moreover have "- 32768 \<le> (- 8192::int) \<and> (- 8192::int) \<le> 32767 \<and>
          (- 1 / 4 :: real) = real_of_int (- 8192) / 32768"
      by simp
    ultimately show ?thesis
      by (metis empty_iff empty_set set_ConsD)
  qed
  from C6_wav_round_trip_is_the_codec [of pcm16_env "[1 / 2, - 1 / 4]" 24000] r
  have a: "fst (load_audio pcm16_env
          (Bytes (le_bytes4 24000 @ concat (map (\<lambda>x. le_bytes2 (quantise16 x)) [1 / 2, - 1 / 4])))
          None) = Inr (Arr1 (map pcm16 [1 / 2, - 1 / 4]), 24000)"
    by blast
  from C6_wav_round_trip_is_the_codec [of pcm16_env "[1 / 2, - 1 / 4]" 24000] r g
  have b: "map pcm16 [1 / 2, - 1 / 4] = [1 / 2, - 1 / 4]"
    by blast
  from a show ?thesis
    by (simp only: b)
qed


text \<open>
  The claim as stated asks for samples that are equal bit for bit. The sample 0.1 at 24000
  Hz is written as the integer 3276 and comes back as 3276/32768 = 0.0999755859375.
\<close>

theorem C6_quantised_samples_counterexample:
  "fst (save_audio pcm16_env (Arr1 [1 / 10]) 24000 ''wav'' None) =
     Inr (Out_bytes [192, 93, 0, 0, 204, 12]) \<and>
   fst (load_audio pcm16_env (Bytes [192, 93, 0, 0, 204, 12]) None) =
     Inr (Arr1 [819 / 8192], 24000) \<and>
   (819 / 8192 :: real) \<noteq> 1 / 10"
proof -
  have q: "quantise16 (1 / 10) = 3276"
    by (simp add: quantise16_def)
  have w: "sf_write_buffer pcm16_env (Arr1 [1 / 10]) 24000 = Inr [192, 93, 0, 0, 204, 12]"
    by (simp add: pcm16_env_answers pcm16_write_def le_bytes4_def le_bytes2_def q)
  have r: "sf_read_buffer pcm16_env [192, 93, 0, 0, 204, 12] = Inr (Arr1 [819 / 8192], 24000)"
    by (simp add: pcm16_env_answers pcm16_read_def)
  from save_audio_wav_bytes [OF w] load_audio_bytes_mono [OF r] show ?thesis
    by simp
qed

end
